theory Spec2Isabelle
  imports Complex_Main
begin

section \<open>Tables\<close>

text \<open>
  The scripts work on pandas tables read from CSV files.  A table is a header (column
  names with their dtypes) and a list of rows; the row labels are always the default
  range index, because every \<^verbatim>\<open>read_csv\<close> call of the repository is made
  without \<^verbatim>\<open>index_col\<close>.  Floating-point cells are carried as reals: the
  scripts never compute on them, they hand them to the library.
\<close>

datatype dtype = Int64 | Float64 | BoolT | Object

datatype cell = NaN | IntV int | FloatV real | StrV string | BoolV bool

type_synonym series = "dtype \<times> cell list"

record frame =
  header :: "(string \<times> dtype) list"
  rows :: "cell list list"

definition column_names :: "frame \<Rightarrow> string list" where
  "column_names df = map fst (header df)"

text \<open>\<^verbatim>\<open>len(df)\<close>\<close>

definition len :: "frame \<Rightarrow> nat" where
  "len df = length (rows df)"

text \<open>\<^verbatim>\<open>df.head(n)\<close>\<close>

definition head :: "nat \<Rightarrow> frame \<Rightarrow> frame" where
  "head n df = df\<lparr>rows := take n (rows df)\<rparr>"

text \<open>\<^verbatim>\<open>X.select_dtypes(include=["object"]).columns.tolist()\<close>\<close>

definition object_columns :: "frame \<Rightarrow> string list" where
  "object_columns X = map fst (filter (\<lambda>c. snd c = Object) (header X))"

text \<open>\<^verbatim>\<open>X.select_dtypes(include=[np.number]).columns.tolist()\<close>\<close>

definition number_columns :: "frame \<Rightarrow> string list" where
  "number_columns X = map fst (filter (\<lambda>c. snd c = Int64 \<or> snd c = Float64) (header X))"

section \<open>Effects and failures\<close>

text \<open>
  A script either runs to its end or stops.  It can stop in three ways: an exception
  raised inside a library call travels to the console, the script calls
  \<^verbatim>\<open>exit()\<close>, or the script executes a \<^verbatim>\<open>raise\<close> statement of its own.
\<close>

datatype failure =
    LibraryRaised string
  | Exited
  | ScriptRaised string string

section \<open>The estimator objects the scripts construct\<close>

datatype estimator =
    SimpleImputer string
  | OneHotEncoder string
  | RandomForestRegressor nat int int
  | Pipeline "(string \<times> estimator) list"
  | ColumnTransformer "(string \<times> estimator \<times> string list) list"

text \<open>
  A fitted object is written as the estimator and the data it was fitted on; what the
  library computes from them is the library's business (see \<open>library\<close> below).
\<close>

type_synonym matrix = "real list list"

datatype fitted_transformer = FittedTransformer estimator frame

datatype fitted_model = FittedModel estimator matrix series

datatype fitted_pipeline = FittedPipeline fitted_transformer fitted_model

datatype kfold = KFold nat bool int

text \<open>
  The numerical library is outside the repository.  Its entry points are parameters
  of the model: every theorem below holds for every behaviour of the library.
  A result \<open>Inl name\<close> is the library raising the exception \<open>name\<close>.
\<close>

record library =
  split_indices :: "nat \<Rightarrow> real \<Rightarrow> int \<Rightarrow> string + nat list \<times> nat list"
  fit_transformer_raises :: "estimator \<Rightarrow> frame \<Rightarrow> string option"
  transform :: "fitted_transformer \<Rightarrow> frame \<Rightarrow> string + matrix"
  fit_model_raises :: "estimator \<Rightarrow> matrix \<Rightarrow> series \<Rightarrow> string option"
  model_predict :: "fitted_model \<Rightarrow> matrix \<Rightarrow> string + real list"
  mean_absolute_error :: "series \<Rightarrow> real list \<Rightarrow> string + real"
  mean_squared_error :: "series \<Rightarrow> real list \<Rightarrow> string + real"
  r2_score :: "series \<Rightarrow> real list \<Rightarrow> string + real"
  cross_val_score :: "estimator \<Rightarrow> frame \<Rightarrow> series \<Rightarrow> kfold \<Rightarrow> string \<Rightarrow> string + real list"
  get_feature_names_out :: "fitted_transformer \<Rightarrow> string list"
  feature_importances :: "fitted_model \<Rightarrow> real list"
  mean :: "series \<Rightarrow> real"
  statistic :: "string \<Rightarrow> frame \<Rightarrow> frame"

text \<open>
  Files on disk, and what a script does to the outside world, in order.  A
  \<open>Print\<close> carries the fixed text of the message (format fields are written
  \<open>{}\<close>; leading blank lines and decorative symbols are left out);
  \<open>PrintFrame\<close> is a table sent to the console.  Of the plotting calls only the
  file that \<^verbatim>\<open>savefig\<close> writes is recorded, and of the listing at the end of
  \<^verbatim>\<open>plots.py\<close> only that the directory is listed.
\<close>

datatype stored = Csv frame | Pkl fitted_pipeline

type_synonym fs = "string \<rightharpoonup> stored"

datatype event =
    ReadCsv string
  | LoadModel string
  | Print string
  | PrintFrame frame
  | WriteCsv string frame
  | SaveFig string
  | DumpModel string fitted_pipeline
  | MakeDirs string
  | ListDir string

type_synonym 'a io = "(failure + 'a) \<times> event list"

definition io_return :: "'a \<Rightarrow> 'a io" where
  "io_return x = (Inr x, [])"

definition io_raise :: "failure \<Rightarrow> 'a io" where
  "io_raise e = (Inl e, [])"

definition io_bind :: "'a io \<Rightarrow> ('a \<Rightarrow> 'b io) \<Rightarrow> 'b io" where
  "io_bind m f =
     (case fst m of
        Inl e \<Rightarrow> (Inl e, snd m)
      | Inr x \<Rightarrow> (fst (f x), snd m @ snd (f x)))"

definition io_seq :: "unit io \<Rightarrow> 'b io \<Rightarrow> 'b io" where
  "io_seq m k = io_bind m (\<lambda>_. k)"

definition emit :: "event \<Rightarrow> unit io" where
  "emit e = (Inr (), [e])"

definition print :: "string \<Rightarrow> unit io" where
  "print s = emit (Print s)"

fun prints :: "string list \<Rightarrow> unit io" where
  "prints [] = io_return ()"
| "prints (s # ss) = io_seq (print s) (prints ss)"

text \<open>\<^verbatim>\<open>"=" * 70\<close>, the line the scripts print around their titles.\<close>

definition banner :: string where
  "banner = replicate 70 (CHR ''='')"

text \<open>A call into the library: its exception, when it raises one, is not caught.\<close>

definition library_call :: "string + 'a \<Rightarrow> 'a io" where
  "library_call r = (case r of Inl e \<Rightarrow> io_raise (LibraryRaised e) | Inr x \<Rightarrow> io_return x)"

definition library_check :: "string option \<Rightarrow> unit io" where
  "library_check r = (case r of Some e \<Rightarrow> io_raise (LibraryRaised e) | None \<Rightarrow> io_return ())"

text \<open>\<^verbatim>\<open>pd.read_csv(path)\<close>\<close>

definition read_csv :: "fs \<Rightarrow> string \<Rightarrow> frame io" where
  "read_csv files path =
     (case files path of
        None \<Rightarrow> io_raise (LibraryRaised ''FileNotFoundError'')
      | Some (Pkl _) \<Rightarrow> io_raise (LibraryRaised ''ParserError'')
      | Some (Csv df) \<Rightarrow> io_seq (emit (ReadCsv path)) (io_return df))"

text \<open>\<^verbatim>\<open>joblib.load(path)\<close>\<close>

definition joblib_load :: "fs \<Rightarrow> string \<Rightarrow> fitted_pipeline io" where
  "joblib_load files path =
     (case files path of
        None \<Rightarrow> io_raise (LibraryRaised ''FileNotFoundError'')
      | Some (Csv _) \<Rightarrow> io_raise (LibraryRaised ''UnpicklingError'')
      | Some (Pkl m) \<Rightarrow> io_seq (emit (LoadModel path)) (io_return m))"

text \<open>\<^verbatim>\<open>os.path.exists(path)\<close>\<close>

definition path_exists :: "fs \<Rightarrow> string \<Rightarrow> bool" where
  "path_exists files path = (files path \<noteq> None)"

text \<open>\<^verbatim>\<open>os.path.join(a, b)\<close>, for a relative \<open>b\<close>.\<close>

definition path_join :: "string \<Rightarrow> string \<Rightarrow> string" where
  "path_join a b = a @ ''/'' @ b"

text \<open>\<^verbatim>\<open>df.to_csv(path, index=False)\<close>\<close>

definition to_csv :: "frame \<Rightarrow> string \<Rightarrow> unit io" where
  "to_csv df path = emit (WriteCsv path df)"

text \<open>\<^verbatim>\<open>df.drop(columns=labels)\<close>: a label that is no column is a KeyError.\<close>

definition drop_columns :: "frame \<Rightarrow> string list \<Rightarrow> frame io" where
  "drop_columns df labels =
     (if list_all (\<lambda>l. l \<in> set (column_names df)) labels
      then io_return
        \<lparr>header = filter (\<lambda>c. fst c \<notin> set labels) (header df),
         rows = map (\<lambda>r. map snd (filter (\<lambda>hc. fst (fst hc) \<notin> set labels) (zip (header df) r)))
                  (rows df)\<rparr>
      else io_raise (LibraryRaised ''KeyError''))"

text \<open>\<^verbatim>\<open>df[label]\<close>\<close>

definition column_cells :: "frame \<Rightarrow> string \<Rightarrow> cell list" where
  "column_cells df label =
     map (\<lambda>r. case map_of (zip (column_names df) r) label of Some c \<Rightarrow> c | None \<Rightarrow> NaN) (rows df)"

definition get_column :: "frame \<Rightarrow> string \<Rightarrow> series io" where
  "get_column df label =
     (case map_of (header df) label of
        None \<Rightarrow> io_raise (LibraryRaised ''KeyError'')
      | Some t \<Rightarrow> io_return (t, column_cells df label))"

text \<open>
  \<^verbatim>\<open>pd.DataFrame({a: xs, b: ys})\<close> for two columns: columns of different lengths
  are a ValueError.
\<close>

definition DataFrame2 :: "string \<Rightarrow> series \<Rightarrow> string \<Rightarrow> series \<Rightarrow> frame io" where
  "DataFrame2 a xs b ys =
     (if length (snd xs) = length (snd ys)
      then io_return
        \<lparr>header = [(a, fst xs), (b, fst ys)],
         rows = map (\<lambda>p. [fst p, snd p]) (zip (snd xs) (snd ys))\<rparr>
      else io_raise (LibraryRaised ''ValueError''))"

section \<open>feature\_importance.py\<close>

text \<open>
  \<^verbatim>\<open>sort_values("importance", ascending=False)\<close> on the two-column table of
  feature names and importances.  pandas leaves the order of rows with equal keys open;
  the model takes one such order.
\<close>

definition float_of :: "cell \<Rightarrow> real" where
  "float_of c = (case c of FloatV r \<Rightarrow> r | IntV i \<Rightarrow> of_int i | _ \<Rightarrow> 0)"

definition sort_values_descending :: "frame \<Rightarrow> nat \<Rightarrow> frame" where
  "sort_values_descending df k = df\<lparr>rows := rev (sort_key (\<lambda>r. float_of (r ! k)) (rows df))\<rparr>"

definition feature_importance :: "library \<Rightarrow> fs \<Rightarrow> string \<Rightarrow> unit io" where
  "feature_importance lib files BASE_DIR =
     (let MODEL_PATH = path_join BASE_DIR ''model_pipeline.pkl'';
          OUT_CSV = path_join (path_join BASE_DIR ''outputs'') ''feature_importance_top20.csv''
      in
      io_seq (emit (MakeDirs (path_join BASE_DIR ''outputs'')))
     (io_seq (prints [banner, ''FEATURE IMPORTANCE - RANDOM FOREST'', banner,
                      ''Loading model: {}''])
     (io_bind (joblib_load files MODEL_PATH) (\<lambda>pipeline.
      case pipeline of FittedPipeline preprocess model \<Rightarrow>
      let feature_names = get_feature_names_out lib preprocess;
          importances = feature_importances lib model
      in
      io_bind (DataFrame2 ''feature'' (Object, map StrV feature_names)
                          ''importance'' (Float64, map FloatV importances)) (\<lambda>df.
      let imp_df = sort_values_descending df 1 in
      io_seq (print ''Top 20 important features:'')
     (io_seq (emit (PrintFrame (head 20 imp_df)))
     (io_seq (to_csv (head 20 imp_df) OUT_CSV)
     (prints [''Saved CSV: {}'', ''Viva explanation:'',
              ''- Feature importance shows which variables contributed most to predictions.'',
              ''- Helps justify why the model makes decisions (explainability).'',
              banner]))))))))"


section \<open>The library's pipeline and splitter\<close>

text \<open>
  Modelled from the spec: the library's \<^verbatim>\<open>Pipeline\<close> is outside the repository.
  The spec describes it as a two-stage composition of a preprocessing transform and a
  regressor, "fit and applied as a single unit so that the same preprocessing is
  guaranteed at train and inference time": fitting fits the transform, transforms the
  training table with it and fits the regressor on the result; predicting transforms
  the new table with the fitted transform and asks the fitted regressor.  Only
  two-stage pipelines are fitted in the repository.
\<close>

definition pipeline_fit :: "library \<Rightarrow> estimator \<Rightarrow> frame \<Rightarrow> series \<Rightarrow> fitted_pipeline io" where
  "pipeline_fit lib pipeline X y =
     (case pipeline of
        Pipeline [(_, pre), (_, est)] \<Rightarrow>
          io_seq (library_check (fit_transformer_raises lib pre X))
         (io_bind (library_call (transform lib (FittedTransformer pre X) X)) (\<lambda>Xt.
          io_seq (library_check (fit_model_raises lib est Xt y))
         (io_return (FittedPipeline (FittedTransformer pre X) (FittedModel est Xt y)))))
      | _ \<Rightarrow> io_raise (LibraryRaised ''TypeError''))"

text \<open>
  Modelled from the spec: \<^verbatim>\<open>predict\<close> of the library's fitted pipeline, "applied
  as a single unit": the table goes through the fitted transform, the result to the
  fitted regressor.
\<close>

definition pipeline_predict :: "library \<Rightarrow> fitted_pipeline \<Rightarrow> frame \<Rightarrow> real list io" where
  "pipeline_predict lib model X =
     (case model of FittedPipeline pre est \<Rightarrow>
        io_bind (library_call (transform lib pre X)) (\<lambda>Xt.
        library_call (model_predict lib est Xt)))"

text \<open>
  \<^verbatim>\<open>train_test_split(X, y, test_size=t, random_state=s)\<close>: the library chooses
  the positions of the training rows and of the validation rows (\<open>split_indices\<close>)
  and both tables and both targets are cut at these positions.  The positions are rows
  of \<open>X\<close>; the guard only keeps the model total.
\<close>

definition select_rows :: "frame \<Rightarrow> nat list \<Rightarrow> frame" where
  "select_rows df idx = df\<lparr>rows := map (\<lambda>i. rows df ! i) idx\<rparr>"

definition select_cells :: "series \<Rightarrow> nat list \<Rightarrow> series" where
  "select_cells y idx = (fst y, map (\<lambda>i. snd y ! i) idx)"

definition train_test_split ::
  "library \<Rightarrow> frame \<Rightarrow> series \<Rightarrow> real \<Rightarrow> int \<Rightarrow> (frame \<times> frame \<times> series \<times> series) io" where
  "train_test_split lib X y test_size random_state =
     io_bind (library_call (split_indices lib (len X) test_size random_state)) (\<lambda>idx.
       if length (snd y) = len X \<and> list_all (\<lambda>i. i < len X) (fst idx @ snd idx)
       then io_return (select_rows X (fst idx), select_rows X (snd idx),
                       select_cells y (fst idx), select_cells y (snd idx))
       else io_raise (LibraryRaised ''ValueError''))"

section \<open>train\_model\_clean.py\<close>

definition TARGET :: string where
  "TARGET = ''price''"

definition numeric_transformer :: estimator where
  "numeric_transformer = Pipeline [(''imputer'', SimpleImputer ''median'')]"

definition categorical_transformer :: estimator where
  "categorical_transformer =
     Pipeline [(''imputer'', SimpleImputer ''most_frequent''),
               (''onehot'', OneHotEncoder ''ignore'')]"

definition preprocessor :: "string list \<Rightarrow> string list \<Rightarrow> estimator" where
  "preprocessor num_cols cat_cols =
     ColumnTransformer [(''num'', numeric_transformer, num_cols),
                        (''cat'', categorical_transformer, cat_cols)]"

text \<open>Steps 3 to 5 of the training script: the pipeline built for the feature table.\<close>

definition train_pipeline :: "frame \<Rightarrow> estimator" where
  "train_pipeline X =
     (let cat_cols = object_columns X;
          num_cols = filter (\<lambda>c. c \<notin> set cat_cols) (column_names X)
      in Pipeline [(''preprocess'', preprocessor num_cols cat_cols),
                   (''model'', RandomForestRegressor 400 42 (- 1))])"

text \<open>Step 2: features and target.\<close>

definition features_and_target :: "frame \<Rightarrow> (frame \<times> series) io" where
  "features_and_target df =
     io_bind (drop_columns df [TARGET, ''index'']) (\<lambda>X.
     io_bind (get_column df TARGET) (\<lambda>y.
     io_return (X, y)))"

text \<open>Step 6: the train/validation split.\<close>

definition train_validation_split ::
  "library \<Rightarrow> frame \<Rightarrow> series \<Rightarrow> (frame \<times> frame \<times> series \<times> series) io" where
  "train_validation_split lib X y = train_test_split lib X y 0.2 42"

text \<open>Steps 7 and 8: fit on the training part, predict and score on the validation part.\<close>

definition fit_and_score ::
  "library \<Rightarrow> estimator \<Rightarrow> frame \<times> frame \<times> series \<times> series
     \<Rightarrow> (fitted_pipeline \<times> real \<times> real \<times> real) io" where
  "fit_and_score lib pipeline parts =
     (case parts of (X_train, X_val, y_train, y_val) \<Rightarrow>
      io_seq (print ''Training model...'')
     (io_bind (pipeline_fit lib pipeline X_train y_train) (\<lambda>model.
      io_seq (print ''Training complete!'')
     (io_bind (pipeline_predict lib model X_val) (\<lambda>y_pred.
      io_bind (library_call (mean_absolute_error lib y_val y_pred)) (\<lambda>mae.
      io_bind (library_call (mean_squared_error lib y_val y_pred)) (\<lambda>mse.
      io_bind (library_call (r2_score lib y_val y_pred)) (\<lambda>r2.
      io_seq (prints [''=== MODEL PERFORMANCE ==='', ''MAE:  {} rubles'',
                      ''RMSE: {} rubles'', ''R2:   {}''])
     (io_return (model, mae, sqrt mse, r2))))))))))"

text \<open>
  The whole script.  Its value is what it reports: the validation MAE, RMSE and
  \<open>R\<^sup>2\<close>.
\<close>

definition train_model_clean :: "library \<Rightarrow> fs \<Rightarrow> (real \<times> real \<times> real) io" where
  "train_model_clean lib files =
     io_bind (read_csv files ''data/data.csv'') (\<lambda>df.
     io_bind (features_and_target df) (\<lambda>Xy.
     io_seq (prints [''Numerical features ({}): {}'', ''Categorical features ({}): {}''])
    (io_bind (train_validation_split lib (fst Xy) (snd Xy)) (\<lambda>parts.
     io_seq (prints [''Training samples: {}'', ''Validation samples: {}''])
    (io_bind (fit_and_score lib (train_pipeline (fst Xy)) parts) (\<lambda>r.
     io_seq (emit (DumpModel ''model_pipeline.pkl'' (fst r)))
    (io_seq (prints [''Model saved to: model_pipeline.pkl'', ''Model size: ~2.9 GB'',
                     ''Ready for predictions!''])
    (io_return (snd r)))))))))"

section \<open>validate\_cv.py\<close>

definition cv_pipeline :: "frame \<Rightarrow> estimator" where
  "cv_pipeline X =
     (let cat_cols = object_columns X;
          num_cols = filter (\<lambda>c. c \<notin> set cat_cols) (column_names X);
          numeric_transformer = Pipeline [(''imputer'', SimpleImputer ''median'')];
          categorical_transformer =
            Pipeline [(''imputer'', SimpleImputer ''most_frequent''),
                      (''onehot'', OneHotEncoder ''ignore'')];
          preprocess =
            ColumnTransformer [(''num'', numeric_transformer, num_cols),
                               (''cat'', categorical_transformer, cat_cols)];
          model = RandomForestRegressor 400 42 (- 1)
      in Pipeline [(''preprocess'', preprocess), (''model'', model)])"

definition validate_cv :: "library \<Rightarrow> fs \<Rightarrow> string \<Rightarrow> (real list \<times> real list \<times> real list) io" where
  "validate_cv lib files BASE_DIR =
     (let DATA_PATH = path_join (path_join BASE_DIR ''data'') ''data.csv'' in
      io_seq (prints [banner, ''CROSS VALIDATION (5-FOLD) - REAL ESTATE PRICE PREDICTION'',
                      banner, ''Loading: {}''])
     (io_bind (read_csv files DATA_PATH) (\<lambda>df.
      io_bind (drop_columns df [''price'', ''index'']) (\<lambda>X.
      io_bind (get_column df ''price'') (\<lambda>y.
      let pipeline = cv_pipeline X; kf = KFold 5 True 42 in
      io_seq (print ''Running 5-Fold Cross Validation...'')
     (io_bind (library_call (cross_val_score lib pipeline X y kf ''neg_mean_absolute_error''))
        (\<lambda>s1.
      io_bind (library_call (cross_val_score lib pipeline X y kf ''neg_mean_squared_error''))
        (\<lambda>s2.
      io_bind (library_call (cross_val_score lib pipeline X y kf ''r2'')) (\<lambda>r2_scores.
      io_seq (prints [''CV RESULTS (5 folds)'', ''MAE : mean={}, std={}'',
                      ''RMSE: mean={}, std={}'', ''R2  : mean={}, std={}'',
                      ''Explanation for viva:'',
                      ''- Cross-validation evaluates the model on 5 different splits.'',
                      ''- This checks generalization and reduces overfitting risk.'',
                      banner])
     (io_return (map uminus s1, map (\<lambda>v. sqrt (- v)) s2, r2_scores)))))))))))"

section \<open>predict\_clean.py\<close>

text \<open>Step 3: the index of the submission and the feature table.\<close>

definition prepare_test :: "frame \<Rightarrow> (series \<times> frame) io" where
  "prepare_test test_df =
     (if ''index'' \<in> set (column_names test_df)
      then io_bind (get_column test_df ''index'') (\<lambda>submission_index.
           io_bind (drop_columns test_df [''index'']) (\<lambda>X_test.
           io_return (submission_index, X_test)))
      else io_return ((Int64, map (\<lambda>i. IntV (int i)) [0..<len test_df]), test_df))"

definition predict_clean :: "library \<Rightarrow> fs \<Rightarrow> frame io" where
  "predict_clean lib files =
     io_bind (joblib_load files ''model_pipeline.pkl'') (\<lambda>model.
     io_seq (print ''Model loaded'')
    (io_bind (read_csv files ''data/test.csv'') (\<lambda>test_df.
     io_seq (print ''Test data shape: {}'')
    (io_bind (prepare_test test_df) (\<lambda>prepared.
     io_bind (pipeline_predict lib model (snd prepared)) (\<lambda>predictions.
     io_seq (print ''Generated {} predictions'')
    (io_bind (DataFrame2 ''index'' (fst prepared) ''price'' (Float64, map FloatV predictions))
       (\<lambda>submission.
     io_seq (to_csv submission ''submission.csv'')
    (io_seq (prints [''Submission saved to: submission.csv'', ''Sample predictions:''])
    (io_seq (emit (PrintFrame (head 10 submission)))
    (io_return submission)))))))))))"

section \<open>find\_target\_clean.py and eda\_clean.py\<close>

definition find_target_clean :: "fs \<Rightarrow> string list io" where
  "find_target_clean files =
     io_bind (read_csv files ''data/data.csv'') (\<lambda>train_df.
     io_bind (read_csv files ''data/test.csv'') (\<lambda>test_df.
     let target_cols = filter (\<lambda>c. c \<notin> set (column_names test_df)) (column_names train_df) in
     io_seq (print ''Target column found: {}'')
    (io_seq (if target_cols \<noteq> []
             then prints [''Target: {}'', ''Data type: {}'', ''Unique values: {}'',
                          ''Sample values: {}'']
             else print ''No target column found.'')
    (io_return target_cols))))"

text \<open>
  The summaries pandas computes for the console and for the report files
  (\<^verbatim>\<open>isna().sum()\<close>, \<^verbatim>\<open>describe\<close>, \<^verbatim>\<open>corr\<close>, \<^verbatim>\<open>value_counts\<close>,
  \<^verbatim>\<open>quantile\<close>, \<^verbatim>\<open>skew\<close>) are the library's \<open>statistic\<close>, named by the call.
\<close>

definition eda_clean :: "library \<Rightarrow> fs \<Rightarrow> unit io" where
  "eda_clean lib files =
     io_bind (read_csv files ''data/data.csv'') (\<lambda>df.
     io_seq (print ''First 5 rows:'')
    (io_seq (emit (PrintFrame (head 5 df)))
    (io_seq (prints [''Dataset shape:'', ''{}'', ''Column names:'', ''{}'', ''Missing values:''])
    (io_seq (emit (PrintFrame (statistic lib ''isna().sum()'' df)))
    (io_seq (prints [''Data types:'', ''{}'', ''Statistical summary:''])
    (emit (PrintFrame (statistic lib ''describe(include=all)'' df))))))))"

section \<open>plots.py\<close>

definition plots :: "library \<Rightarrow> fs \<Rightarrow> string \<Rightarrow> unit io" where
  "plots lib files BASE_DIR =
     (let DATA_PATH = path_join (path_join BASE_DIR ''data'') ''data.csv'';
          OUT_DIR = path_join BASE_DIR ''outputs''
      in
      io_seq (emit (MakeDirs OUT_DIR))
     (io_bind (read_csv files DATA_PATH) (\<lambda>df.
      io_bind (if ''index'' \<in> set (column_names df) then drop_columns df [''index'']
               else io_return df) (\<lambda>df_no_id.
      io_bind (drop_columns df_no_id [''price'']) (\<lambda>X.
      io_bind (get_column df_no_id ''price'') (\<lambda>y.
      io_seq (emit (SaveFig (path_join OUT_DIR ''01_price_hist.png'')))
     (io_seq (emit (SaveFig (path_join OUT_DIR ''02_log_price_hist.png'')))
     (io_seq (if ''total_area'' \<in> set (column_names df_no_id)
              then emit (SaveFig (path_join OUT_DIR ''03_total_area_vs_price.png''))
              else io_return ())
     (io_seq (if ''district_name'' \<in> set (column_names df_no_id)
              then emit (SaveFig (path_join OUT_DIR ''04_price_by_district_boxplot.png''))
              else io_return ())
     (io_seq (emit (SaveFig (path_join OUT_DIR ''05_corr_heatmap.png'')))
     (io_seq (prints [''Saved graphs into: {}'', ''Files created:''])
     (emit (ListDir OUT_DIR)))))))))))))"

section \<open>tests/demo\_predict\_one.py\<close>

text \<open>\<^verbatim>\<open>df.iloc[[0]]\<close>: the first row as a table; no first row is an IndexError.\<close>

definition first_row :: "frame \<Rightarrow> frame io" where
  "first_row df =
     (case rows df of
        [] \<Rightarrow> io_raise (LibraryRaised ''IndexError'')
      | r # _ \<Rightarrow> io_return (df\<lparr>rows := [r]\<rparr>))"

text \<open>\<^verbatim>\<open>xs[0]\<close>\<close>

definition first_item :: "'a list \<Rightarrow> 'a io" where
  "first_item xs =
     (case xs of [] \<Rightarrow> io_raise (LibraryRaised ''IndexError'') | x # _ \<Rightarrow> io_return x)"

definition demo_predict_one :: "library \<Rightarrow> fs \<Rightarrow> string \<Rightarrow> real io" where
  "demo_predict_one lib files BASE_DIR =
     (let MODEL_PATH = path_join BASE_DIR ''model_pipeline.pkl'';
          DATA_PATH = path_join (path_join BASE_DIR ''data'') ''data.csv''
      in
      io_seq (prints [banner, ''DEMO: PREDICT ONE PROPERTY'', banner])
     (io_bind (joblib_load files MODEL_PATH) (\<lambda>model.
      io_bind (read_csv files DATA_PATH) (\<lambda>df.
      io_bind (drop_columns df [''price'']) (\<lambda>features.
      io_bind (first_row features) (\<lambda>sample0.
      io_bind (if ''index'' \<in> set (column_names sample0) then drop_columns sample0 [''index'']
               else io_return sample0) (\<lambda>sample.
      io_seq (print ''Sample input row (1 property):'')
     (io_seq (emit (PrintFrame sample))
     (io_bind (pipeline_predict lib model sample) (\<lambda>predictions.
      io_bind (first_item predictions) (\<lambda>pred.
      io_seq (prints [''Predicted price: {}'', ''Viva explanation:'',
                      ''- This demo predicts for one input property.'',
                      ''- Uses saved pipeline so preprocessing + model are applied automatically.'',
                      banner])
     (io_return pred))))))))))))"

section \<open>tests/check\_model\_accuracy.py\<close>

text \<open>
  The report at the end of the script (interpretation, sample predictions, error
  statistics, model information, grade): print statements only, whose texts depend on
  the validation metrics.
\<close>

definition accuracy_report :: "real \<Rightarrow> real \<Rightarrow> real \<Rightarrow> real \<Rightarrow> unit io" where
  "accuracy_report r2_val mae_val rmse_val avg_price =
     (let mae_percent = (mae_val / avg_price) * 100 in
      io_seq (prints [banner, ''METRICS INTERPRETATION'', banner,
                      ''1 R2 Score (Coefficient of Determination): {}'',
                      ''   -> Model explains {}% of price variance''])
     (io_seq (print (if r2_val \<ge> 0.90 then ''   -> EXCELLENT (>90%)''
                     else if r2_val \<ge> 0.85 then ''   -> VERY GOOD (85-90%)''
                     else if r2_val \<ge> 0.80 then ''   -> GOOD (80-85%)''
                     else ''   -> ACCEPTABLE (<80%)''))
     (io_seq (prints [''2 MAE (Mean Absolute Error): {} RUB'', ''   -> Average error: +-{} RUB'',
                      ''   -> As percentage: +-{}% of average price''])
     (io_seq (print (if mae_percent < 10 then ''   -> EXCELLENT (<10%)''
                     else if mae_percent < 15 then ''   -> VERY GOOD (10-15%)''
                     else ''   -> GOOD (>15%)''))
     (io_seq (prints [''3 RMSE (Root Mean Squared Error): {} RUB'',
                      ''   -> Penalizes large errors more heavily'',
                      ''   -> RMSE/MAE ratio: {}''])
     (io_seq (print (if rmse_val / mae_val < 1.3 then ''   -> Most errors are consistent (good!)''
                     else ''   -> Some large outlier errors exist''))
     (io_seq (prints [banner, ''SAMPLE PREDICTIONS (First 10 from validation set)'', banner,
                      ''{}'',
                      banner, ''ERROR STATISTICS'', banner,
                      ''Error Range:'', ''   Min error: {} RUB (over-prediction)'',
                      ''   Max error: {} RUB (under-prediction)'', ''   Mean error: {} RUB'',
                      ''   Median error: {} RUB'',
                      ''Prediction Accuracy:'', ''   Within +-10%: {} samples ({}%)'',
                      ''   Within +-15%: {} samples ({}%)'', ''   Within +-20%: {} samples ({}%)'',
                      banner, ''MODEL INFORMATION'', banner,
                      ''Algorithm: Random Forest Regressor'', ''   Number of trees: 400'',
                      ''   Max depth: Unlimited (None)'', ''   Random state: 42 (reproducible)'',
                      ''   CPU cores used: All available (-1)'',
                      ''Preprocessing Pipeline:'',
                      ''   Numerical features (12): SimpleImputer (median)'',
                      ''   Categorical features (5): SimpleImputer + OneHotEncoder'',
                      ''Training Approach:'', ''   1. Data split: 80% train, 20% validation'',
                      ''   2. Automated feature type detection'',
                      ''   3. Pipeline prevents data leakage'',
                      ''   4. Cross-validation performed (5-fold)'',
                      banner, ''ACCURACY VERIFICATION COMPLETE'', banner,
                      ''OVERALL GRADE:''])
     (io_seq (print (if r2_val \<ge> 0.85 \<and> mae_percent < 15 then ''   EXCELLENT - Distinction Level''
                     else if r2_val \<ge> 0.80 \<and> mae_percent < 20 then ''   VERY GOOD - Merit Level''
                     else ''   GOOD - Pass Level''))
     (prints [''Key Takeaway:'', ''   Your model achieves {}% accuracy with +-{}% average error.'',
              (if r2_val \<ge> 0.85 then ''   This is EXCELLENT performance for real estate prediction!''
               else ''   This is GOOD performance for real estate prediction!''),
              banner])))))))))"

text \<open>
  The script up to the report.  Its value is the validation metrics it reports
  (MAE, RMSE, \<open>R\<^sup>2\<close>).
\<close>

definition check_model_accuracy :: "library \<Rightarrow> fs \<Rightarrow> (real \<times> real \<times> real) io" where
  "check_model_accuracy lib files =
     io_seq (prints [banner, ''MODEL ACCURACY VERIFICATION'', banner])
    (if \<not> path_exists files ''model_pipeline.pkl''
     then io_seq (prints [''Model file not found!'',
                          ''Please run: python train_model_clean.py first''])
                 (io_raise Exited)
     else
     io_seq (prints [''Model file found: model_pipeline.pkl'', ''  Size: {} GB'',
                     ''Loading trained model...''])
    (io_bind (joblib_load files ''model_pipeline.pkl'') (\<lambda>model.
     io_seq (prints [''Model loaded successfully!'', ''Loading data...''])
    (io_bind (read_csv files ''data/data.csv'') (\<lambda>df.
     io_seq (print ''Data loaded: {} samples, {} columns'')
    (io_bind (drop_columns df [''price'', ''index'']) (\<lambda>X.
     io_bind (get_column df ''price'') (\<lambda>y.
     io_seq (prints [''Dataset Information:'', ''   Features: {}'', ''   Samples: {}'',
                     ''   Target: price (continuous)''])
    (io_bind (train_test_split lib X y 0.2 42) (\<lambda>parts.
     case parts of (X_train, X_val, y_train, y_val) \<Rightarrow>
     io_seq (prints [''Data Split:'', ''   Training samples: {} (80%)'',
                     ''   Validation samples: {} (20%)'', ''Generating predictions...''])
    (io_bind (pipeline_predict lib model X_train) (\<lambda>y_pred_train.
     io_bind (pipeline_predict lib model X_val) (\<lambda>y_pred_val.
     io_seq (prints [''Predictions generated!'', banner, ''MODEL PERFORMANCE METRICS'',
                     banner])
    (io_bind (library_call (mean_absolute_error lib y_train y_pred_train)) (\<lambda>mae_train.
     io_bind (library_call (mean_squared_error lib y_train y_pred_train)) (\<lambda>mse_train.
     io_bind (library_call (r2_score lib y_train y_pred_train)) (\<lambda>r2_train.
     io_seq (prints [''TRAINING SET PERFORMANCE:'', ''   MAE:  {} RUB'', ''   RMSE: {} RUB'',
                     ''   R2 Score: {} ({}% variance explained)''])
    (io_bind (library_call (mean_absolute_error lib y_val y_pred_val)) (\<lambda>mae_val.
     io_bind (library_call (mean_squared_error lib y_val y_pred_val)) (\<lambda>mse_val.
     io_bind (library_call (r2_score lib y_val y_pred_val)) (\<lambda>r2_val.
     io_seq (prints [''VALIDATION SET PERFORMANCE (Main Metric):'', ''   MAE:  {} RUB'',
                     ''   RMSE: {} RUB'', ''   R2 Score: {} ({}% variance explained)''])
    (io_seq (accuracy_report r2_val mae_val (sqrt mse_val) (mean lib y))
    (io_return (mae_val, sqrt mse_val, r2_val))))))))))))))))))))))))"

section \<open>tests/eda\_report.py\<close>

definition DATA_PATHS_TO_TRY :: "string list" where
  "DATA_PATHS_TO_TRY = [''data/train.csv'', ''data/train_clean.csv'', ''train.csv'',
                        ''train_clean.csv'']"

definition TARGET_COL :: string where
  "TARGET_COL = ''price''"

definition CATEGORICAL_COLS :: "string list" where
  "CATEGORICAL_COLS = [''gas'', ''hot_water'', ''central_heating'', ''extra_area_type_name'',
                       ''district_name'']"

definition OUTPUT_DIR :: string where
  "OUTPUT_DIR = ''outputs_eda''"

fun load_data_from :: "fs \<Rightarrow> string list \<Rightarrow> frame io" where
  "load_data_from files [] =
     io_raise (ScriptRaised ''FileNotFoundError''
       ''Could not find dataset. Put train.csv inside a data/ folder or update DATA_PATHS_TO_TRY.'')"
| "load_data_from files (p # ps) =
     (if path_exists files p
      then io_seq (print ''Loaded dataset: {}'') (read_csv files p)
      else load_data_from files ps)"

definition load_data :: "fs \<Rightarrow> frame io" where
  "load_data files = load_data_from files DATA_PATHS_TO_TRY"

definition save_table :: "frame \<Rightarrow> string \<Rightarrow> unit io" where
  "save_table df filename =
     io_seq (to_csv df (path_join OUTPUT_DIR filename)) (print ''Saved: {}'')"

fun value_count_reports :: "library \<Rightarrow> frame \<Rightarrow> string list \<Rightarrow> unit io" where
  "value_count_reports lib df [] = io_return ()"
| "value_count_reports lib df (col # cols) =
     io_seq (if col \<in> set (column_names df)
             then io_seq (save_table (statistic lib (''value_counts '' @ col) df)
                                     (''value_counts_'' @ col @ ''.csv''))
                         (emit (SaveFig (path_join OUTPUT_DIR (''top10_'' @ col @ ''.png''))))
             else io_return ())
            (value_count_reports lib df cols)"

fun area_reports :: "library \<Rightarrow> frame \<Rightarrow> string list \<Rightarrow> unit io" where
  "area_reports lib df [] = io_return ()"
| "area_reports lib df (area_col # cols) =
     io_seq (if area_col \<in> set (column_names df) \<and> TARGET_COL \<in> set (column_names df)
             then io_seq (save_table (statistic lib (''quantile '' @ area_col) df)
                                     (''percentiles_'' @ area_col @ ''.csv''))
                         (emit (SaveFig (path_join OUTPUT_DIR
                                  (''scatter_'' @ area_col @ ''_vs_price.png''))))
             else io_return ())
            (area_reports lib df cols)"

definition eda_report :: "library \<Rightarrow> fs \<Rightarrow> unit io" where
  "eda_report lib files =
     io_seq (emit (MakeDirs OUTPUT_DIR))
    (io_bind (load_data files) (\<lambda>df.
     let info = \<lparr>header = [(''rows'', Int64), (''columns'', Int64), (''target_present'', BoolT)],
                 rows = [[IntV (int (len df)), IntV (int (length (header df))),
                          BoolV (TARGET_COL \<in> set (column_names df))]]\<rparr>
     in
     io_seq (save_table info ''dataset_summary.csv'')
    (io_seq (save_table (statistic lib ''missing_values'' df) ''missing_values.csv'')
    (io_seq (save_table (statistic lib ''duplicate_rows'' df) ''duplicates.csv'')
    (io_seq (if TARGET_COL \<in> set (column_names df)
             then io_seq (emit (SaveFig (path_join OUTPUT_DIR ''price_hist_raw.png'')))
                 (io_seq (save_table (statistic lib ''price_skewness_raw'' df) ''price_skewness.csv'')
                 (emit (SaveFig (path_join OUTPUT_DIR ''price_hist_log1p.png''))))
             else io_return ())
    (io_seq (if TARGET_COL \<in> set (number_columns df)
             then io_seq (emit (SaveFig (path_join OUTPUT_DIR ''correlation_heatmap.png'')))
                         (save_table (statistic lib ''corr'' df) ''correlation_matrix.csv'')
             else io_return ())
    (io_seq (value_count_reports lib df CATEGORICAL_COLS)
    (io_seq (area_reports lib df [''total_area'', ''kitchen_area'', ''bath_area''])
    (print ''DONE. All EDA outputs saved in: {}/'')))))))))"

section \<open>The straight-line reading of the pipeline\<close>

text \<open>
  The spec describes the train/validate/predict pipeline as "a fixed sequence of library
  calls (split \<open>\<rightarrow>\<close> fit \<open>\<rightarrow>\<close> transform \<open>\<rightarrow>\<close> predict \<open>\<rightarrow>\<close> score) with no branching
  logic, no retry/recovery behavior", and a script as "load a CSV; drop named columns;
  call a library's fit/predict/score function; write a CSV or print to console".  The two
  definitions below follow these words, with the entry points of the library alone; they
  are compared with the scripts further down.
\<close>

definition straight_line_training ::
  "library \<Rightarrow> estimator \<Rightarrow> estimator \<Rightarrow> frame \<Rightarrow> series \<Rightarrow> (real \<times> real \<times> real) io" where
  "straight_line_training lib pre est X y =
     io_bind (train_test_split lib X y (20 / 100) 42) (\<lambda>parts.
     case parts of (X_train, X_val, y_train, y_val) \<Rightarrow>
     io_seq (library_check (fit_transformer_raises lib pre X_train))
    (io_bind (library_call (transform lib (FittedTransformer pre X_train) X_train)) (\<lambda>Xt.
     io_seq (library_check (fit_model_raises lib est Xt y_train))
    (io_bind (library_call (transform lib (FittedTransformer pre X_train) X_val)) (\<lambda>Xv.
     io_bind (library_call (model_predict lib (FittedModel est Xt y_train) Xv)) (\<lambda>y_pred.
     io_bind (library_call (mean_absolute_error lib y_val y_pred)) (\<lambda>mae.
     io_bind (library_call (mean_squared_error lib y_val y_pred)) (\<lambda>mse.
     io_bind (library_call (r2_score lib y_val y_pred)) (\<lambda>r2.
     io_return (mae, sqrt mse, r2))))))))))"

definition straight_line_prediction :: "library \<Rightarrow> fitted_pipeline \<Rightarrow> frame \<Rightarrow> frame io" where
  "straight_line_prediction lib model test_df =
     io_bind (get_column test_df ''index'') (\<lambda>submission_index.
     io_bind (drop_columns test_df [''index'']) (\<lambda>X_test.
     io_bind (pipeline_predict lib model X_test) (\<lambda>predictions.
     DataFrame2 ''index'' submission_index ''price'' (Float64, map FloatV predictions))))"

section \<open>The library's check of the feature columns\<close>

text \<open>
  Modelled from the spec: the check of the feature columns is made inside the library,
  which is outside the repository.  The spec says that "feature columns must match
  between train and test", and that this "is enforced implicitly by the underlying
  library raising on mismatch".  A library does so when its fitted transform raises for
  a table whose column names are not those of the table it was fitted on, and when, for a
  table with those column names, neither the fitted transform nor the fitted forest
  raises and the forest returns one prediction for each row.
\<close>

definition raises_on_mismatch :: "library \<Rightarrow> bool" where
  "raises_on_mismatch lib =
     (\<forall>e F X. column_names X \<noteq> column_names F \<longrightarrow>
        (\<exists>err. transform lib (FittedTransformer e F) X = Inl err))"

text \<open>
  Modelled from the spec: the other half of "feature columns must match": with matching
  columns the library predicts, one value for each row.
\<close>

definition predicts_on_match :: "library \<Rightarrow> bool" where
  "predicts_on_match lib =
     (\<forall>e F m X. column_names X = column_names F \<longrightarrow>
        (\<exists>Xt p. transform lib (FittedTransformer e F) X = Inr Xt \<and>
                model_predict lib m Xt = Inr p \<and> length p = len X))"

section \<open>What a run shows\<close>

text \<open>
  A run handles a failure itself when it ends in \<^verbatim>\<open>exit()\<close> or in an exception
  raised by a statement of the script, not in an exception that came out of a library
  call.
\<close>

definition handles_failure_itself :: "'a io \<Rightarrow> bool" where
  "handles_failure_itself m =
     (case fst m of
        Inl (LibraryRaised _) \<Rightarrow> False
      | Inl Exited \<Rightarrow> True
      | Inl (ScriptRaised _ _) \<Rightarrow> True
      | Inr _ \<Rightarrow> False)"

fun is_read_csv :: "event \<Rightarrow> bool" where
  "is_read_csv (ReadCsv _) = True"
| "is_read_csv _ = False"


definition reads_a_csv :: "'a io \<Rightarrow> bool" where
  "reads_a_csv m = list_ex is_read_csv (snd m)"


definition completes :: "'a io \<Rightarrow> bool" where
  "completes m = (case fst m of Inl _ \<Rightarrow> False | Inr _ \<Rightarrow> True)"

section \<open>An example library and example files\<close>

text \<open>
  A small library and a small disk on which the scripts can be run by evaluation.  The
  example transform refuses a table whose column names differ from those it was fitted
  on, and the example forest predicts the sum of a row.
\<close>

definition example_library :: library where
  "example_library =
     \<lparr>split_indices = (\<lambda>n t s. if n < 2 then Inl ''ValueError'' else Inr ([1..<n], [0])),
      fit_transformer_raises = (\<lambda>e X. None),
      transform = (\<lambda>p X. case p of FittedTransformer e F \<Rightarrow>
                     if column_names X = column_names F
                     then Inr (map (map float_of) (rows X)) else Inl ''ValueError''),
      fit_model_raises = (\<lambda>e Xt y. None),
      model_predict = (\<lambda>m Xt. Inr (map sum_list Xt)),
      mean_absolute_error = (\<lambda>y p. Inr 1),
      mean_squared_error = (\<lambda>y p. Inr 4),
      r2_score = (\<lambda>y p. Inr 0.9),
      cross_val_score = (\<lambda>e X y k s. Inr [1, 1, 1, 1, 1]),
      get_feature_names_out = (\<lambda>p. [''num__total_area'', ''cat__gas_no'', ''cat__gas_yes'']),
      feature_importances = (\<lambda>m. [0.5, 0.2, 0.3]),
      mean = (\<lambda>y. 100),
      statistic = (\<lambda>s df. df)\<rparr>"

definition example_data :: frame where
  "example_data =
     \<lparr>header = [(''index'', Int64), (''total_area'', Float64), (''gas'', Object),
                (''price'', Float64)],
      rows = [[IntV 10, FloatV 40, StrV ''yes'', FloatV 100],
              [IntV 11, FloatV 55, StrV ''no'', FloatV 150],
              [IntV 12, NaN, StrV ''yes'', FloatV 120]]\<rparr>"

definition example_test :: frame where
  "example_test =
     \<lparr>header = [(''index'', Int64), (''total_area'', Float64), (''gas'', Object)],
      rows = [[IntV 7, FloatV 30, StrV ''no''], [IntV 8, FloatV 60, StrV ''yes'']]\<rparr>"

definition example_test_no_index :: frame where
  "example_test_no_index =
     \<lparr>header = [(''total_area'', Float64), (''gas'', Object)],
      rows = [[FloatV 30, StrV ''no''], [FloatV 60, StrV ''yes'']]\<rparr>"

definition example_features :: frame where
  "example_features =
     \<lparr>header = [(''total_area'', Float64), (''gas'', Object)],
      rows = [[FloatV 55, StrV ''no''], [NaN, StrV ''yes'']]\<rparr>"

definition example_model :: fitted_pipeline where
  "example_model =
     FittedPipeline
       (FittedTransformer (preprocessor [''total_area''] [''gas'']) example_features)
       (FittedModel (RandomForestRegressor 400 42 (- 1)) [[55, 0], [0, 0]]
          (Float64, [FloatV 150, FloatV 120]))"

definition example_files :: fs where
  "example_files =
     [''data/data.csv'' \<mapsto> Csv example_data,
      ''data/test.csv'' \<mapsto> Csv example_test,
      ''model_pipeline.pkl'' \<mapsto> Pkl example_model,
      ''./data/data.csv'' \<mapsto> Csv example_data,
      ''./model_pipeline.pkl'' \<mapsto> Pkl example_model,
      ''data/train.csv'' \<mapsto> Csv example_data]"

section \<open>Basic facts about effects\<close>

lemma fst_io_return [simp]: "fst (io_return x) = Inr x"
  by (simp add: io_return_def)

lemma snd_io_return [simp]: "snd (io_return x) = []"
  by (simp add: io_return_def)

lemma fst_io_raise [simp]: "fst (io_raise e) = Inl e"
  by (simp add: io_raise_def)

lemma snd_io_raise [simp]: "snd (io_raise e) = []"
  by (simp add: io_raise_def)

lemma fst_io_bind: "fst (io_bind m f) = (case fst m of Inl e \<Rightarrow> Inl e | Inr x \<Rightarrow> fst (f x))"
  by (simp add: io_bind_def split: sum.splits)

lemma snd_io_bind:
  "snd (io_bind m f) = (case fst m of Inl e \<Rightarrow> snd m | Inr x \<Rightarrow> snd m @ snd (f x))"
  by (simp add: io_bind_def split: sum.splits)

lemma fst_io_seq: "fst (io_seq m k) = (case fst m of Inl e \<Rightarrow> Inl e | Inr x \<Rightarrow> fst k)"
  by (simp add: io_seq_def fst_io_bind)

lemma snd_io_seq:
  "snd (io_seq m k) = (case fst m of Inl e \<Rightarrow> snd m | Inr x \<Rightarrow> snd m @ snd k)"
  by (simp add: io_seq_def snd_io_bind)

lemma fst_emit [simp]: "fst (emit e) = Inr ()"
  by (simp add: emit_def)

lemma snd_emit [simp]: "snd (emit e) = [e]"
  by (simp add: emit_def)

lemma fst_print [simp]: "fst (print s) = Inr ()"
  by (simp add: print_def)

lemma snd_print [simp]: "snd (print s) = [Print s]"
  by (simp add: print_def)

lemma fst_prints [simp]: "fst (prints ss) = Inr ()"
  by (induction ss) (simp_all add: fst_io_seq)

lemma snd_prints [simp]: "snd (prints ss) = map Print ss"
  by (induction ss) (simp_all add: snd_io_seq)

lemma fst_to_csv [simp]: "fst (to_csv df p) = Inr ()"
  by (simp add: to_csv_def)

lemma snd_to_csv [simp]: "snd (to_csv df p) = [WriteCsv p df]"
  by (simp add: to_csv_def)

lemmas io_simps = fst_io_bind snd_io_bind fst_io_seq snd_io_seq

section \<open>The prediction script, step by step\<close>

lemma snd_library_call [simp]: "snd (library_call r) = []"
  by (simp add: library_call_def split: sum.splits)

lemma snd_library_check [simp]: "snd (library_check r) = []"
  by (simp add: library_check_def split: option.splits)

lemma fst_library_call: "fst (library_call r) = (case r of Inl e \<Rightarrow> Inl (LibraryRaised e) | Inr x \<Rightarrow> Inr x)"
  by (simp add: library_call_def split: sum.splits)

lemma fst_library_check: "fst (library_check r) = (case r of Some e \<Rightarrow> Inl (LibraryRaised e) | None \<Rightarrow> Inr ())"
  by (simp add: library_check_def split: option.splits)

lemma snd_drop_columns [simp]: "snd (drop_columns df ls) = []"
  by (simp add: drop_columns_def)

lemma snd_get_column [simp]: "snd (get_column df l) = []"
  by (simp add: get_column_def split: option.splits)

lemma snd_DataFrame2 [simp]: "snd (DataFrame2 a xs b ys) = []"
  by (simp add: DataFrame2_def)

lemma snd_pipeline_predict [simp]: "snd (pipeline_predict lib m X) = []"
  by (simp add: pipeline_predict_def io_simps split: fitted_pipeline.splits sum.splits)

lemma snd_pipeline_fit [simp]: "snd (pipeline_fit lib p X y) = []"
  by (simp add: pipeline_fit_def io_simps split: estimator.splits list.splits prod.splits sum.splits)

lemma map_of_header_None: "map_of (header df) l = None \<longleftrightarrow> l \<notin> set (column_names df)"
  by (simp add: column_names_def map_of_eq_None_iff)

lemma length_column_cells [simp]: "length (column_cells df l) = len df"
  by (simp add: column_cells_def len_def)

lemma prepare_test_no_index:
  assumes "''index'' \<notin> set (column_names T)"
  shows "prepare_test T = (Inr ((Int64, map (\<lambda>i. IntV (int i)) [0..<len T]), T), [])"
  using assms by (simp add: prepare_test_def io_return_def)

lemma prepare_test_index:
  assumes "''index'' \<in> set (column_names T)"
  shows "\<exists>t. map_of (header T) ''index'' = Some t \<and>
     prepare_test T =
       (Inr ((t, column_cells T ''index''),
             \<lparr>header = filter (\<lambda>c. fst c \<noteq> ''index'') (header T),
              rows = map (\<lambda>r. map snd (filter (\<lambda>hc. fst (fst hc) \<noteq> ''index'') (zip (header T) r)))
                       (rows T)\<rparr>), [])"
proof -
  from assms obtain t where t: "map_of (header T) ''index'' = Some t"
    using map_of_header_None [of T "''index''"] by (cases "map_of (header T) ''index''") auto
  then show ?thesis using assms
    by (simp add: prepare_test_def get_column_def drop_columns_def io_bind_def io_return_def)
qed

lemma prepare_test_total: "\<exists>idx X. prepare_test T = (Inr (idx, X), []) \<and> length (snd idx) = len T \<and> len X = len T"
proof (cases "''index'' \<in> set (column_names T)")
  case True
  from prepare_test_index [OF True] show ?thesis by (auto simp: len_def)
next
  case False
  from prepare_test_no_index [OF False] show ?thesis by auto
qed

lemma predict_clean_run:
  assumes "fst (predict_clean lib files) = Inr sub"
  shows "\<exists>model T idx X preds.
     files ''model_pipeline.pkl'' = Some (Pkl model) \<and>
     files ''data/test.csv'' = Some (Csv T) \<and>
     prepare_test T = (Inr (idx, X), []) \<and>
     fst (pipeline_predict lib model X) = Inr preds \<and>
     length preds = len T \<and>
     sub = \<lparr>header = [(''index'', fst idx), (''price'', Float64)],
            rows = map (\<lambda>p. [fst p, snd p]) (zip (snd idx) (map FloatV preds))\<rparr> \<and>
     snd (predict_clean lib files) =
       [LoadModel ''model_pipeline.pkl'', Print ''Model loaded'', ReadCsv ''data/test.csv'',
        Print ''Test data shape: {}'', Print ''Generated {} predictions'',
        WriteCsv ''submission.csv'' sub, Print ''Submission saved to: submission.csv'',
        Print ''Sample predictions:'', PrintFrame (head 10 sub)]"
proof -
  from assms obtain model where m: "files ''model_pipeline.pkl'' = Some (Pkl model)"
    by (auto simp: predict_clean_def io_simps joblib_load_def
        split: option.splits stored.splits sum.splits)
  from assms m obtain T where T: "files ''data/test.csv'' = Some (Csv T)"
    by (auto simp: predict_clean_def io_simps joblib_load_def read_csv_def
        split: option.splits stored.splits sum.splits)
  from prepare_test_total [of T] obtain idx X where
    p: "prepare_test T = (Inr (idx, X), [])" and li: "length (snd idx) = len T"
    by blast
  from assms m T p obtain preds where
    pr: "fst (pipeline_predict lib model X) = Inr preds"
    by (auto simp: predict_clean_def io_simps joblib_load_def read_csv_def
        split: sum.splits)
  from assms m T p pr li have lp: "length preds = len T"
    by (auto simp: predict_clean_def io_simps joblib_load_def read_csv_def DataFrame2_def
        split: sum.splits if_splits)
  show ?thesis
    apply (rule exI [of _ model], rule exI [of _ T], rule exI [of _ idx], rule exI [of _ X],
        rule exI [of _ preds])
    using assms m T p pr li lp
    by (simp add: predict_clean_def io_simps joblib_load_def read_csv_def DataFrame2_def)
qed

section \<open>The feature-importance report\<close>

lemma sorted_descending_rev_sort_key:
  "sorted_wrt (\<lambda>a b. f a \<ge> f b) (rev (sort_key f xs))"
proof -
  have "sorted (map f (sort_key f xs))" by simp
  then have "sorted_wrt (\<lambda>a b. f a \<le> f b) (sort_key f xs)"
    by (simp add: sorted_wrt_map)
  then show ?thesis by (simp add: sorted_wrt_rev)
qed

lemma feature_importance_run:
  assumes "fst (feature_importance lib files B) = Inr u"
  shows "\<exists>pre model.
     files (path_join B ''model_pipeline.pkl'') = Some (Pkl (FittedPipeline pre model)) \<and>
     length (get_feature_names_out lib pre) = length (feature_importances lib model) \<and>
     snd (feature_importance lib files B) =
       [MakeDirs (path_join B ''outputs''), Print banner,
        Print ''FEATURE IMPORTANCE - RANDOM FOREST'', Print banner, Print ''Loading model: {}'',
        LoadModel (path_join B ''model_pipeline.pkl''),
        Print ''Top 20 important features:'',
        PrintFrame (head 20 (sort_values_descending
           \<lparr>header = [(''feature'', Object), (''importance'', Float64)],
            rows = map (\<lambda>p. [fst p, snd p])
                     (zip (map StrV (get_feature_names_out lib pre))
                          (map FloatV (feature_importances lib model)))\<rparr> 1)),
        WriteCsv (path_join (path_join B ''outputs'') ''feature_importance_top20.csv'')
          (head 20 (sort_values_descending
           \<lparr>header = [(''feature'', Object), (''importance'', Float64)],
            rows = map (\<lambda>p. [fst p, snd p])
                     (zip (map StrV (get_feature_names_out lib pre))
                          (map FloatV (feature_importances lib model)))\<rparr> 1)),
        Print ''Saved CSV: {}'', Print ''Viva explanation:'',
        Print ''- Feature importance shows which variables contributed most to predictions.'',
        Print ''- Helps justify why the model makes decisions (explainability).'',
        Print banner]"
  using assms
  by (auto simp: feature_importance_def Let_def io_simps joblib_load_def DataFrame2_def
      split: option.splits stored.splits fitted_pipeline.splits if_splits sum.splits)

text \<open>
  Claim C10.  Whenever the feature-importance script runs to its end, the table it
  prints and the table it writes are one and the same table \<open>top\<close>; it has the two
  columns \<open>feature\<close> and \<open>importance\<close> and at most 20 rows, its rows are in
  non-increasing order of the importance, and each row pairs a transformed feature name
  of the loaded preprocessing step with the importance the loaded forest gives it.
\<close>

theorem feature_importance_top20:
  assumes "fst (feature_importance lib files B) = Inr u"
  shows "\<exists>top pre model.
     files (path_join B ''model_pipeline.pkl'') = Some (Pkl (FittedPipeline pre model)) \<and>
     PrintFrame top \<in> set (snd (feature_importance lib files B)) \<and>
     WriteCsv (path_join (path_join B ''outputs'') ''feature_importance_top20.csv'') top
       \<in> set (snd (feature_importance lib files B)) \<and>
     (\<forall>p f. WriteCsv p f \<in> set (snd (feature_importance lib files B)) \<longrightarrow> f = top) \<and>
     (\<forall>f. PrintFrame f \<in> set (snd (feature_importance lib files B)) \<longrightarrow> f = top) \<and>
     column_names top = [''feature'', ''importance''] \<and>
     len top \<le> 20 \<and>
     sorted_wrt (\<lambda>a b. float_of (a ! 1) \<ge> float_of (b ! 1)) (rows top) \<and>
     (\<forall>r \<in> set (rows top). \<exists>n i.
         (n, i) \<in> set (zip (get_feature_names_out lib pre) (feature_importances lib model)) \<and>
         r = [StrV n, FloatV i])"
proof -
  from feature_importance_run [OF assms] obtain pre model where
    m: "files (path_join B ''model_pipeline.pkl'') = Some (Pkl (FittedPipeline pre model))"
    and l: "length (get_feature_names_out lib pre) = length (feature_importances lib model)"
    and log: "snd (feature_importance lib files B) =
       [MakeDirs (path_join B ''outputs''), Print banner,
        Print ''FEATURE IMPORTANCE - RANDOM FOREST'', Print banner, Print ''Loading model: {}'',
        LoadModel (path_join B ''model_pipeline.pkl''),
        Print ''Top 20 important features:'',
        PrintFrame (head 20 (sort_values_descending
           \<lparr>header = [(''feature'', Object), (''importance'', Float64)],
            rows = map (\<lambda>p. [fst p, snd p])
                     (zip (map StrV (get_feature_names_out lib pre))
                          (map FloatV (feature_importances lib model)))\<rparr> 1)),
        WriteCsv (path_join (path_join B ''outputs'') ''feature_importance_top20.csv'')
          (head 20 (sort_values_descending
           \<lparr>header = [(''feature'', Object), (''importance'', Float64)],
            rows = map (\<lambda>p. [fst p, snd p])
                     (zip (map StrV (get_feature_names_out lib pre))
                          (map FloatV (feature_importances lib model)))\<rparr> 1)),
        Print ''Saved CSV: {}'', Print ''Viva explanation:'',
        Print ''- Feature importance shows which variables contributed most to predictions.'',
        Print ''- Helps justify why the model makes decisions (explainability).'',
        Print banner]"
    by blast
  define names where "names = get_feature_names_out lib pre"
  define imps where "imps = feature_importances lib model"
  define table where "table = map (\<lambda>p. [fst p, snd p]) (zip (map StrV names) (map FloatV imps))"
  define top where "top = head 20 (sort_values_descending
           \<lparr>header = [(''feature'', Object), (''importance'', Float64)], rows = table\<rparr> 1)"
  have rows_top: "rows top = take 20 (rev (sort_key (\<lambda>r. float_of (r ! 1)) table))"
    by (simp add: top_def head_def sort_values_descending_def)
  have cols: "column_names top = [''feature'', ''importance'']"
    by (simp add: top_def head_def sort_values_descending_def column_names_def)
  have len: "len top \<le> 20"
    by (simp add: len_def rows_top)
  have sorted: "sorted_wrt (\<lambda>a b. float_of (a ! 1) \<ge> float_of (b ! 1)) (rows top)"
    unfolding rows_top by (rule sorted_wrt_take) (rule sorted_descending_rev_sort_key)
  have mem: "\<exists>n i. (n, i) \<in> set (zip names imps) \<and> r = [StrV n, FloatV i]"
    if "r \<in> set (rows top)" for r
  proof -
    from that have "r \<in> set table"
      unfolding rows_top by (auto dest: in_set_takeD)
    then obtain a b where ab: "(a, b) \<in> set (zip (map StrV names) (map FloatV imps))"
      and r: "r = [a, b]"
      by (auto simp: table_def)
    from ab obtain k where k: "k < length names" "k < length imps"
      "a = StrV (names ! k)" "b = FloatV (imps ! k)"
      by (auto simp: in_set_zip)
    then have "(names ! k, imps ! k) \<in> set (zip names imps)"
      by (auto simp: in_set_zip)
    with r k show ?thesis by blast
  qed
  show ?thesis
    apply (rule exI [of _ top], rule exI [of _ pre], rule exI [of _ model])
    using m cols len sorted mem
    by (simp add: log top_def table_def names_def imps_def)
qed

lemma feature_importance_example:
  "fst (feature_importance example_library example_files ''.'') = Inr ()"
  by (simp add: feature_importance_def Let_def io_simps joblib_load_def DataFrame2_def
      example_files_def example_library_def example_model_def path_join_def)

theorem feature_importance_top20_witness:
  "fst (feature_importance example_library example_files ''.'') = Inr () \<and>
   (\<exists>top. WriteCsv ''./outputs/feature_importance_top20.csv'' top
              \<in> set (snd (feature_importance example_library example_files ''.'')) \<and>
           PrintFrame top \<in> set (snd (feature_importance example_library example_files ''.'')) \<and>
           len top \<le> 20 \<and>
           sorted_wrt (\<lambda>a b. float_of (a ! 1) \<ge> float_of (b ! 1)) (rows top))"
proof -
  from feature_importance_top20 [OF feature_importance_example]
  obtain top where
    "WriteCsv (path_join (path_join ''.'' ''outputs'') ''feature_importance_top20.csv'') top
       \<in> set (snd (feature_importance example_library example_files ''.''))"
    "PrintFrame top \<in> set (snd (feature_importance example_library example_files ''.''))"
    "len top \<le> 20"
    "sorted_wrt (\<lambda>a b. float_of (a ! 1) \<ge> float_of (b ! 1)) (rows top)"
    by blast
  then show ?thesis
    using feature_importance_example by (auto simp: path_join_def)
qed

section \<open>The training script, step by step\<close>

lemma column_names_select_rows [simp]: "column_names (select_rows X idx) = column_names X"
  by (simp add: select_rows_def column_names_def)

lemma header_select_rows [simp]: "header (select_rows X idx) = header X"
  by (simp add: select_rows_def)

lemma snd_train_test_split [simp]: "snd (train_test_split lib X y t s) = []"
  by (simp add: train_test_split_def io_simps split: sum.splits)

lemma snd_features_and_target [simp]: "snd (features_and_target df) = []"
  by (simp add: features_and_target_def io_simps split: sum.splits)

lemma train_pipeline_eq:
  "train_pipeline X =
     Pipeline [(''preprocess'',
                ColumnTransformer
                  [(''num'', Pipeline [(''imputer'', SimpleImputer ''median'')],
                    filter (\<lambda>c. c \<notin> set (object_columns X)) (column_names X)),
                   (''cat'', Pipeline [(''imputer'', SimpleImputer ''most_frequent''),
                                       (''onehot'', OneHotEncoder ''ignore'')],
                    object_columns X)]),
               (''model'', RandomForestRegressor 400 42 (- 1))]"
  by (simp add: train_pipeline_def preprocessor_def numeric_transformer_def
      categorical_transformer_def Let_def)

lemma pipeline_fit_two_stage:
  "fst (pipeline_fit lib (Pipeline [(a, pre), (b, est)]) X y) = Inr model \<longleftrightarrow>
     fit_transformer_raises lib pre X = None \<and>
     (\<exists>Xt. transform lib (FittedTransformer pre X) X = Inr Xt \<and>
           fit_model_raises lib est Xt y = None \<and>
           model = FittedPipeline (FittedTransformer pre X) (FittedModel est Xt y))"
  by (auto simp: pipeline_fit_def io_simps fst_library_call fst_library_check
      split: option.splits sum.splits)

lemma fst_pipeline_predict:
  "fst (pipeline_predict lib (FittedPipeline pre est) X) =
     (case transform lib pre X of
        Inl e \<Rightarrow> Inl (LibraryRaised e)
      | Inr Xt \<Rightarrow> (case model_predict lib est Xt of
                     Inl e \<Rightarrow> Inl (LibraryRaised e) | Inr p \<Rightarrow> Inr p))"
  by (simp add: pipeline_predict_def io_simps fst_library_call split: sum.splits)

lemma train_test_split_Inr:
  "fst (train_test_split lib X y t s) = Inr parts \<longleftrightarrow>
     (\<exists>tr te. split_indices lib (len X) t s = Inr (tr, te) \<and>
        length (snd y) = len X \<and> list_all (\<lambda>i. i < len X) (tr @ te) \<and>
        parts = (select_rows X tr, select_rows X te, select_cells y tr, select_cells y te))"
  by (auto simp: train_test_split_def io_simps fst_library_call split: sum.splits)

lemma fit_and_score_Inr:
  assumes "fst (fit_and_score lib pipeline (X_train, X_val, y_train, y_val)) = Inr r"
  shows "\<exists>model preds mae mse r2.
     fst (pipeline_fit lib pipeline X_train y_train) = Inr model \<and>
     fst (pipeline_predict lib model X_val) = Inr preds \<and>
     mean_absolute_error lib y_val preds = Inr mae \<and>
     mean_squared_error lib y_val preds = Inr mse \<and>
     r2_score lib y_val preds = Inr r2 \<and>
     r = (model, mae, sqrt mse, r2)"
  using assms
  by (auto simp: fit_and_score_def io_simps fst_library_call split: sum.splits)

lemma snd_fit_and_score:
  assumes "fst (fit_and_score lib pipeline parts) = Inr r"
  shows "snd (fit_and_score lib pipeline parts) =
     [Print ''Training model...'', Print ''Training complete!'',
      Print ''=== MODEL PERFORMANCE ==='', Print ''MAE:  {} rubles'',
      Print ''RMSE: {} rubles'', Print ''R2:   {}'']"
  using assms
  by (cases parts) (auto simp: fit_and_score_def io_simps fst_library_call split: sum.splits)

lemma train_model_clean_run:
  assumes "fst (train_model_clean lib files) = Inr r"
  shows "\<exists>df X y parts model.
     files ''data/data.csv'' = Some (Csv df) \<and>
     fst (features_and_target df) = Inr (X, y) \<and>
     fst (train_validation_split lib X y) = Inr parts \<and>
     fst (fit_and_score lib (train_pipeline X) parts) = Inr (model, r) \<and>
     snd (train_model_clean lib files) =
       [ReadCsv ''data/data.csv'', Print ''Numerical features ({}): {}'',
        Print ''Categorical features ({}): {}'', Print ''Training samples: {}'',
        Print ''Validation samples: {}'', Print ''Training model...'',
        Print ''Training complete!'', Print ''=== MODEL PERFORMANCE ==='',
        Print ''MAE:  {} rubles'', Print ''RMSE: {} rubles'', Print ''R2:   {}'',
        DumpModel ''model_pipeline.pkl'' model, Print ''Model saved to: model_pipeline.pkl'',
        Print ''Model size: ~2.9 GB'', Print ''Ready for predictions!'']"
proof -
  from assms obtain df where d: "files ''data/data.csv'' = Some (Csv df)"
    by (auto simp: train_model_clean_def io_simps read_csv_def
        split: option.splits stored.splits sum.splits)
  from assms d obtain X y where xy: "fst (features_and_target df) = Inr (X, y)"
    by (auto simp: train_model_clean_def io_simps read_csv_def split: sum.splits)
  from assms d xy obtain parts where ps: "fst (train_validation_split lib X y) = Inr parts"
    by (auto simp: train_model_clean_def io_simps read_csv_def split: sum.splits)
  from assms d xy ps obtain model where
    fs: "fst (fit_and_score lib (train_pipeline X) parts) = Inr (model, r)"
    by (auto simp: train_model_clean_def io_simps read_csv_def split: sum.splits)
  show ?thesis
    apply (rule exI [of _ df], rule exI [of _ X], rule exI [of _ y], rule exI [of _ parts],
        rule exI [of _ model])
    using d xy ps fs snd_fit_and_score [OF fs]
    by (simp add: train_model_clean_def io_simps read_csv_def train_validation_split_def)
qed

section \<open>The submission and its index\<close>

lemma predict_clean_succeeds:
  assumes "files ''model_pipeline.pkl'' = Some (Pkl model)"
    and "files ''data/test.csv'' = Some (Csv T)"
    and "fst (prepare_test T) = Inr (idx, X)"
    and "fst (pipeline_predict lib model X) = Inr preds"
    and "length preds = len X"
  shows "\<exists>sub. fst (predict_clean lib files) = Inr sub"
proof -
  from prepare_test_total [of T] assms(3) have
    p: "prepare_test T = (Inr (idx, X), [])" and li: "length (snd idx) = len T"
    and lx: "len X = len T"
    by auto
  show ?thesis
    using assms(1,2,4,5) p li lx
    by (simp add: predict_clean_def io_simps joblib_load_def read_csv_def DataFrame2_def)
qed

lemma features_and_target_Inr:
  assumes "fst (features_and_target df) = Inr (X, y)"
  shows "snd y = column_cells df ''price'' \<and> ''price'' \<notin> set (column_names X) \<and>
         ''index'' \<notin> set (column_names X) \<and>
         column_names X = filter (\<lambda>c. c \<noteq> ''price'' \<and> c \<noteq> ''index'') (column_names df) \<and>
         header X = filter (\<lambda>c. fst c \<noteq> ''price'' \<and> fst c \<noteq> ''index'') (header df) \<and>
         len X = len df \<and> length (snd y) = len df"
  using assms
  by (auto simp: features_and_target_def io_simps drop_columns_def get_column_def TARGET_def
      column_names_def filter_map comp_def len_def
      split: if_splits option.splits sum.splits)

lemma predict_clean_outcome:
  assumes "files ''model_pipeline.pkl'' = Some (Pkl model)"
    and "files ''data/test.csv'' = Some (Csv T)"
    and "fst (prepare_test T) = Inr (idx, X)"
  shows "fst (predict_clean lib files) =
     (case fst (pipeline_predict lib model X) of
        Inl e \<Rightarrow> Inl e
      | Inr preds \<Rightarrow> fst (DataFrame2 ''index'' idx ''price'' (Float64, map FloatV preds)))"
proof -
  from prepare_test_total [of T] assms(3) have p: "prepare_test T = (Inr (idx, X), [])"
    by auto
  show ?thesis
    using assms(1,2) p
    by (simp add: predict_clean_def io_simps joblib_load_def read_csv_def split: sum.splits)
qed

text \<open>
  Claim C8.  Step 3 of the prediction script never fails.  For a test table without an
  \<open>index\<close> column it gives the index \<open>0, ..., n - 1\<close> (\<open>n\<close> the number of rows)
  and the whole table as features; for a table with an \<open>index\<close> column it gives that
  column, unchanged, and the table without it.  Whenever the script then runs to its
  end, row \<open>k\<close> of the submission holds entry \<open>k\<close> of this index next to entry
  \<open>k\<close> of the predictions the pipeline returned for the feature table.  And on a
  test table without an \<open>index\<close> column the script does run to its end, with the rows
  numbered from 0, whenever the model loads and the pipeline returns one prediction per
  row of the table.
\<close>

theorem submission_index_pairs_rows:
  assumes "files ''data/test.csv'' = Some (Csv T)"
  shows "(''index'' \<notin> set (column_names T) \<longrightarrow>
            prepare_test T = (Inr ((Int64, map (\<lambda>i. IntV (int i)) [0..<len T]), T), [])) \<and>
         (''index'' \<in> set (column_names T) \<longrightarrow>
            (\<exists>t X. prepare_test T = (Inr ((t, column_cells T ''index''), X), []) \<and>
                   column_names X = filter (\<lambda>c. c \<noteq> ''index'') (column_names T) \<and>
                   len X = len T)) \<and>
         (\<forall>sub. fst (predict_clean lib files) = Inr sub \<longrightarrow>
            (\<exists>model idx X preds.
               files ''model_pipeline.pkl'' = Some (Pkl model) \<and>
               fst (prepare_test T) = Inr (idx, X) \<and>
               fst (pipeline_predict lib model X) = Inr preds \<and>
               length (snd idx) = len T \<and> length preds = len T \<and> len sub = len T \<and>
               (\<forall>k < len T. rows sub ! k = [snd idx ! k, FloatV (preds ! k)]))) \<and>
         (\<forall>model preds. ''index'' \<notin> set (column_names T) \<longrightarrow>
            files ''model_pipeline.pkl'' = Some (Pkl model) \<longrightarrow>
            fst (pipeline_predict lib model T) = Inr preds \<longrightarrow> length preds = len T \<longrightarrow>
            fst (predict_clean lib files) =
              Inr \<lparr>header = [(''index'', Int64), (''price'', Float64)],
                     rows = map (\<lambda>p. [fst p, snd p])
                              (zip (map (\<lambda>i. IntV (int i)) [0..<len T]) (map FloatV preds))\<rparr>)"
proof (intro conjI impI allI)
  assume "''index'' \<notin> set (column_names T)"
  then show "prepare_test T = (Inr ((Int64, map (\<lambda>i. IntV (int i)) [0..<len T]), T), [])"
    by (rule prepare_test_no_index)
next
  assume "''index'' \<in> set (column_names T)"
  from prepare_test_index [OF this]
  show "\<exists>t X. prepare_test T = (Inr ((t, column_cells T ''index''), X), []) \<and>
          column_names X = filter (\<lambda>c. c \<noteq> ''index'') (column_names T) \<and> len X = len T"
    by (auto simp: column_names_def len_def filter_map comp_def)
next
  fix sub
  assume "fst (predict_clean lib files) = Inr sub"
  from predict_clean_run [OF this] assms obtain model idx X preds where
    m: "files ''model_pipeline.pkl'' = Some (Pkl model)"
    and p: "prepare_test T = (Inr (idx, X), [])"
    and pr: "fst (pipeline_predict lib model X) = Inr preds"
    and lp: "length preds = len T"
    and sub: "sub = \<lparr>header = [(''index'', fst idx), (''price'', Float64)],
            rows = map (\<lambda>p. [fst p, snd p]) (zip (snd idx) (map FloatV preds))\<rparr>"
    by auto
  from prepare_test_total [of T] p have li: "length (snd idx) = len T"
    by auto
  have "rows sub ! k = [snd idx ! k, FloatV (preds ! k)]" if "k < len T" for k
    using that li lp by (simp add: sub)
  moreover have "len sub = len T"
    using li lp by (simp add: sub len_def)
  ultimately show "\<exists>model idx X preds.
               files ''model_pipeline.pkl'' = Some (Pkl model) \<and>
               fst (prepare_test T) = Inr (idx, X) \<and>
               fst (pipeline_predict lib model X) = Inr preds \<and>
               length (snd idx) = len T \<and> length preds = len T \<and> len sub = len T \<and>
               (\<forall>k < len T. rows sub ! k = [snd idx ! k, FloatV (preds ! k)])"
    using m p pr li lp by auto
next
  fix model preds
  assume n: "''index'' \<notin> set (column_names T)"
    and m: "files ''model_pipeline.pkl'' = Some (Pkl model)"
    and pr: "fst (pipeline_predict lib model T) = Inr preds"
    and lp: "length preds = len T"
  from prepare_test_no_index [OF n]
  have p: "fst (prepare_test T) = Inr ((Int64, map (\<lambda>i. IntV (int i)) [0..<len T]), T)"
    by simp
  from predict_clean_outcome [where lib = lib, OF m assms p] pr lp
  show "fst (predict_clean lib files) =
              Inr \<lparr>header = [(''index'', Int64), (''price'', Float64)],
                     rows = map (\<lambda>p. [fst p, snd p])
                              (zip (map (\<lambda>i. IntV (int i)) [0..<len T]) (map FloatV preds))\<rparr>"
    by (simp add: DataFrame2_def io_simps)
qed

lemma predict_clean_example:
  "fst (predict_clean example_library example_files) =
     Inr \<lparr>header = [(''index'', Int64), (''price'', Float64)],
          rows = [[IntV 7, FloatV 30], [IntV 8, FloatV 60]]\<rparr>"
  by (simp add: predict_clean_def io_simps joblib_load_def read_csv_def DataFrame2_def
      example_files_def example_library_def example_model_def example_test_def
      example_features_def prepare_test_def column_names_def get_column_def column_cells_def
      drop_columns_def pipeline_predict_def library_call_def float_of_def)

lemma predict_clean_example_no_index:
  "fst (predict_clean example_library (example_files(''data/test.csv'' \<mapsto> Csv example_test_no_index))) =
     Inr \<lparr>header = [(''index'', Int64), (''price'', Float64)],
          rows = [[IntV 0, FloatV 30], [IntV 1, FloatV 60]]\<rparr>"
  by (simp add: predict_clean_def io_simps joblib_load_def read_csv_def DataFrame2_def
      example_files_def example_library_def example_model_def example_test_no_index_def
      example_features_def prepare_test_def column_names_def get_column_def column_cells_def
      drop_columns_def pipeline_predict_def library_call_def float_of_def len_def upt_rec)

theorem submission_index_pairs_rows_witness:
  "example_files ''data/test.csv'' = Some (Csv example_test) \<and>
   ''index'' \<in> set (column_names example_test) \<and>
   (\<exists>t X. prepare_test example_test = (Inr ((t, column_cells example_test ''index''), X), []) \<and>
          column_names X = [''total_area'', ''gas'']) \<and>
   (\<exists>sub idx preds. fst (predict_clean example_library example_files) = Inr sub \<and>
      rows sub ! 1 = [idx ! 1, FloatV (preds ! 1)] \<and>
      idx = column_cells example_test ''index'') \<and>
   ''index'' \<notin> set (column_names example_test_no_index) \<and>
   prepare_test example_test_no_index =
     (Inr ((Int64, [IntV 0, IntV 1]), example_test_no_index), []) \<and>
   fst (predict_clean example_library
          (example_files(''data/test.csv'' \<mapsto> Csv example_test_no_index))) =
     Inr \<lparr>header = [(''index'', Int64), (''price'', Float64)],
          rows = [[IntV 0, FloatV 30], [IntV 1, FloatV 60]]\<rparr>"
proof -
  have f: "example_files ''data/test.csv'' = Some (Csv example_test)"
    by (simp add: example_files_def)
  have i: "''index'' \<in> set (column_names example_test)"
    by (simp add: example_test_def column_names_def)
  have l: "len example_test = 2"
    by (simp add: example_test_def len_def)
  note w = submission_index_pairs_rows
    [where files = example_files and T = example_test and lib = example_library, OF f]
  from w [THEN conjunct2, THEN conjunct1] i obtain t X where
    a: "prepare_test example_test = (Inr ((t, column_cells example_test ''index''), X), [])"
    and b: "column_names X = filter (\<lambda>c. c \<noteq> ''index'') (column_names example_test)"
    by blast
  from b have b': "column_names X = [''total_area'', ''gas'']"
    by (simp add: example_test_def column_names_def)
  define sub where "sub = \<lparr>header = [(''index'', Int64), (''price'', Float64)],
          rows = [[IntV 7, FloatV 30], [IntV 8, FloatV 60]]\<rparr>"
  have c: "fst (predict_clean example_library example_files) = Inr sub"
    unfolding sub_def by (rule predict_clean_example)
  from w [THEN conjunct2, THEN conjunct2, THEN conjunct1] c obtain idx0 X0 preds where
    p0: "fst (prepare_test example_test) = Inr (idx0, X0)"
    and k: "\<forall>k < len example_test. rows sub ! k = [snd idx0 ! k, FloatV (preds ! k)]"
    by blast
  from p0 a have "snd idx0 = column_cells example_test ''index''"
    by auto
  with k l have d: "rows sub ! 1 = [column_cells example_test ''index'' ! 1, FloatV (preds ! 1)]"
    by simp
  have g: "(example_files(''data/test.csv'' \<mapsto> Csv example_test_no_index)) ''data/test.csv''
             = Some (Csv example_test_no_index)"
    by simp
  have n: "''index'' \<notin> set (column_names example_test_no_index)"
    by (simp add: example_test_no_index_def column_names_def)
  note w' = submission_index_pairs_rows
    [where files = "example_files(''data/test.csv'' \<mapsto> Csv example_test_no_index)"
       and T = example_test_no_index and lib = example_library, OF g]
  from w' [THEN conjunct1] n
  have h: "prepare_test example_test_no_index =
     (Inr ((Int64, map (\<lambda>i. IntV (int i)) [0..<len example_test_no_index]),
        example_test_no_index), [])"
    by blast
  have l': "len example_test_no_index = 2"
    by (simp add: example_test_no_index_def len_def)
  with h have h': "prepare_test example_test_no_index =
     (Inr ((Int64, [IntV 0, IntV 1]), example_test_no_index), [])"
    by (simp add: upt_rec)
  have m': "(example_files(''data/test.csv'' \<mapsto> Csv example_test_no_index)) ''model_pipeline.pkl''
             = Some (Pkl example_model)"
    by (simp add: example_files_def)
  have pr': "fst (pipeline_predict example_library example_model example_test_no_index)
             = Inr [30, 60]"
    by (simp add: pipeline_predict_def io_simps library_call_def example_library_def
        example_model_def example_test_no_index_def example_features_def column_names_def
        float_of_def)
  have lp': "length [30, 60 :: real] = len example_test_no_index"
    by (simp add: l')
  from w' [THEN conjunct2, THEN conjunct2, THEN conjunct2, rule_format, OF n m' pr' lp']
  have q: "fst (predict_clean example_library
          (example_files(''data/test.csv'' \<mapsto> Csv example_test_no_index))) =
     Inr \<lparr>header = [(''index'', Int64), (''price'', Float64)],
          rows = [[IntV 0, FloatV 30], [IntV 1, FloatV 60]]\<rparr>"
    by (simp add: l' upt_rec)
  have e: "\<exists>sub idx preds. fst (predict_clean example_library example_files) = Inr sub \<and>
      rows sub ! 1 = [idx ! 1, FloatV (preds ! 1)] \<and>
      idx = column_cells example_test ''index''"
    using c d by blast
  have a': "\<exists>t X. prepare_test example_test = (Inr ((t, column_cells example_test ''index''), X), []) \<and>
          column_names X = [''total_area'', ''gas'']"
    using a b' by blast
  show ?thesis
    by (intro conjI f i a' e n h' q)
qed

lemma prepare_test_columns:
  assumes "fst (prepare_test T) = Inr (idx, X)"
  shows "column_names X = filter (\<lambda>c. c \<noteq> ''index'') (column_names T)"
proof (cases "''index'' \<in> set (column_names T)")
  case True
  from prepare_test_index [OF True] assms show ?thesis
    by (auto simp: column_names_def filter_map comp_def)
next
  case False
  then have "filter (\<lambda>c. c \<noteq> ''index'') (column_names T) = column_names T"
    by (induction "column_names T") (auto simp: filter_id_conv)
  with prepare_test_no_index [OF False] assms show ?thesis
    by simp
qed

lemma column_cells_two_columns:
  assumes "length xs = length ys" and "a \<noteq> b"
  shows "column_cells \<lparr>header = [(a, s), (b, t)],
                        rows = map (\<lambda>p. [fst p, snd p]) (zip xs ys)\<rparr> a = xs"
    and "column_cells \<lparr>header = [(a, s), (b, t)],
                        rows = map (\<lambda>p. [fst p, snd p]) (zip xs ys)\<rparr> b = ys"
  using assms by (simp_all add: column_cells_def column_names_def comp_def)

text \<open>
  Claim C3.  Whenever the batch-prediction script runs to its end on a test table, the
  one CSV file it writes is \<open>submission.csv\<close>.  It is a table with the two columns
  \<open>index\<close> and \<open>price\<close>, every row of it has exactly these two cells, and it has
  exactly one row for each row of the test table.  Its \<open>index\<close> column is the row
  index: the \<open>index\<close> column of the test table where there is one, the numbers
  \<open>0, ..., n - 1\<close> otherwise.  Its \<open>price\<close> column is the predictions the loaded
  pipeline returned for the feature table, in their order.  The script does run to its end
  whenever the model file is there and the pipeline returns one prediction for each row.
  The target of the training script is the column \<open>price\<close>: it is the label series,
  and it is not among the features.
\<close>

theorem submission_two_columns_one_row_per_input:
  assumes "files ''data/test.csv'' = Some (Csv T)"
  shows "(\<forall>sub. fst (predict_clean lib files) = Inr sub \<longrightarrow>
            (\<exists>model idx X preds.
               files ''model_pipeline.pkl'' = Some (Pkl model) \<and>
               fst (prepare_test T) = Inr (idx, X) \<and>
               snd idx = (if ''index'' \<in> set (column_names T)
                          then column_cells T ''index''
                          else map (\<lambda>i. IntV (int i)) [0..<len T]) \<and>
               column_names X = filter (\<lambda>c. c \<noteq> ''index'') (column_names T) \<and>
               fst (pipeline_predict lib model X) = Inr preds \<and>
               sub = \<lparr>header = [(''index'', fst idx), (''price'', Float64)],
                      rows = map (\<lambda>p. [fst p, snd p])
                               (zip (snd idx) (map FloatV preds))\<rparr> \<and>
               length preds = len T \<and>
               column_cells sub ''index'' = snd idx \<and>
               column_cells sub ''price'' = map FloatV preds) \<and>
            column_names sub = [''index'', ''price''] \<and> len sub = len T \<and>
            (\<forall>r \<in> set (rows sub). length r = 2) \<and>
            WriteCsv ''submission.csv'' sub \<in> set (snd (predict_clean lib files)) \<and>
            (\<forall>p f. WriteCsv p f \<in> set (snd (predict_clean lib files)) \<longrightarrow>
                   p = ''submission.csv'' \<and> f = sub)) \<and>
         (\<forall>model idx X preds.
            files ''model_pipeline.pkl'' = Some (Pkl model) \<longrightarrow>
            fst (prepare_test T) = Inr (idx, X) \<longrightarrow>
            fst (pipeline_predict lib model X) = Inr preds \<longrightarrow>
            length preds = len X \<longrightarrow>
            fst (predict_clean lib files) =
              Inr \<lparr>header = [(''index'', fst idx), (''price'', Float64)],
                   rows = map (\<lambda>p. [fst p, snd p]) (zip (snd idx) (map FloatV preds))\<rparr>) \<and>
         TARGET = ''price'' \<and>
         (\<forall>df X y. fst (features_and_target df) = Inr (X, y) \<longrightarrow>
            snd y = column_cells df ''price'' \<and> ''price'' \<notin> set (column_names X))"
proof (intro conjI allI impI)
  fix sub
  assume run: "fst (predict_clean lib files) = Inr sub"
  from predict_clean_run [OF run] obtain model :: fitted_pipeline and T' idx X preds where
    m: "files ''model_pipeline.pkl'' = Some (Pkl model)"
    and T': "files ''data/test.csv'' = Some (Csv T')"
    and p': "prepare_test T' = (Inr (idx, X), [])"
    and pr: "fst (pipeline_predict lib model X) = Inr preds"
    and lp': "length preds = len T'"
    and sub: "sub = \<lparr>header = [(''index'', fst idx), (''price'', Float64)],
            rows = map (\<lambda>p. [fst p, snd p]) (zip (snd idx) (map FloatV preds))\<rparr>"
    and log: "snd (predict_clean lib files) =
       [LoadModel ''model_pipeline.pkl'', Print ''Model loaded'', ReadCsv ''data/test.csv'',
        Print ''Test data shape: {}'', Print ''Generated {} predictions'',
        WriteCsv ''submission.csv'' sub, Print ''Submission saved to: submission.csv'',
        Print ''Sample predictions:'', PrintFrame (head 10 sub)]"
    by blast
  from T' assms have "T' = T" by simp
  with p' lp' have p: "prepare_test T = (Inr (idx, X), [])" and lp: "length preds = len T"
    by simp_all
  from prepare_test_total [of T] p have li: "length (snd idx) = len T"
    by auto
  from p have fp: "fst (prepare_test T) = Inr (idx, X)"
    by simp
  have the_index: "snd idx = (if ''index'' \<in> set (column_names T)
                          then column_cells T ''index''
                          else map (\<lambda>i. IntV (int i)) [0..<len T])"
  proof (cases "''index'' \<in> set (column_names T)")
    case True
    from prepare_test_index [OF True] p show ?thesis
      using True by auto
  next
    case False
    from prepare_test_no_index [OF False] p show ?thesis
      using False by auto
  qed
  have ll: "length (snd idx) = length (map FloatV preds)"
    using li lp by simp
  have ne: "''index'' \<noteq> ''price''"
    by simp
  have ci: "column_cells sub ''index'' = snd idx"
    unfolding sub by (rule column_cells_two_columns(1) [OF ll ne])
  have cp: "column_cells sub ''price'' = map FloatV preds"
    unfolding sub by (rule column_cells_two_columns(2) [OF ll ne])
  show "\<exists>model idx X preds.
               files ''model_pipeline.pkl'' = Some (Pkl model) \<and>
               fst (prepare_test T) = Inr (idx, X) \<and>
               snd idx = (if ''index'' \<in> set (column_names T)
                          then column_cells T ''index''
                          else map (\<lambda>i. IntV (int i)) [0..<len T]) \<and>
               column_names X = filter (\<lambda>c. c \<noteq> ''index'') (column_names T) \<and>
               fst (pipeline_predict lib model X) = Inr preds \<and>
               sub = \<lparr>header = [(''index'', fst idx), (''price'', Float64)],
                      rows = map (\<lambda>p. [fst p, snd p])
                               (zip (snd idx) (map FloatV preds))\<rparr> \<and>
               length preds = len T \<and>
               column_cells sub ''index'' = snd idx \<and>
               column_cells sub ''price'' = map FloatV preds"
    apply (rule exI [of _ model], rule exI [of _ idx], rule exI [of _ X], rule exI [of _ preds])
    by (intro conjI m fp the_index prepare_test_columns [OF fp] pr sub lp ci cp)
  show "column_names sub = [''index'', ''price'']"
    by (simp add: sub column_names_def)
  show "len sub = len T"
    using li lp by (simp add: sub len_def)
  show "\<forall>r \<in> set (rows sub). length r = 2"
    by (auto simp: sub)
  show "WriteCsv ''submission.csv'' sub \<in> set (snd (predict_clean lib files))"
    by (simp add: log)
  fix q f
  assume "WriteCsv q f \<in> set (snd (predict_clean lib files))"
  then show "q = ''submission.csv''" and "f = sub"
    by (simp_all add: log)
next
  fix model idx X preds
  assume a: "files ''model_pipeline.pkl'' = Some (Pkl model)"
    and b: "fst (prepare_test T) = Inr (idx, X)"
    and c: "fst (pipeline_predict lib model X) = Inr preds"
    and d: "length preds = len X"
  from prepare_test_total [of T] b have li: "length (snd idx) = len T" and lx: "len X = len T"
    by auto
  from predict_clean_outcome [OF a assms b, of lib] c d li lx
  show "fst (predict_clean lib files) =
              Inr \<lparr>header = [(''index'', fst idx), (''price'', Float64)],
                   rows = map (\<lambda>p. [fst p, snd p]) (zip (snd idx) (map FloatV preds))\<rparr>"
    by (simp add: DataFrame2_def)
next
  show "TARGET = ''price''"
    by (simp add: TARGET_def)
next
  fix df X y
  assume "fst (features_and_target df) = Inr (X, y)"
  from features_and_target_Inr [OF this]
  show "snd y = column_cells df ''price''" and "''price'' \<notin> set (column_names X)"
    by simp_all
qed

theorem submission_two_columns_one_row_per_input_witness:
  "example_files ''data/test.csv'' = Some (Csv example_test) \<and>
   (\<exists>sub preds. fst (predict_clean example_library example_files) = Inr sub \<and>
      column_names sub = [''index'', ''price''] \<and> len sub = 2 \<and>
      column_cells sub ''index'' = column_cells example_test ''index'' \<and>
      column_cells sub ''price'' = map FloatV preds \<and>
      sub = \<lparr>header = [(''index'', Int64), (''price'', Float64)],
             rows = [[IntV 7, FloatV 30], [IntV 8, FloatV 60]]\<rparr> \<and>
      WriteCsv ''submission.csv'' sub \<in> set (snd (predict_clean example_library example_files)))"
proof -
  have f: "example_files ''data/test.csv'' = Some (Csv example_test)"
    by (simp add: example_files_def)
  have l: "len example_test = 2"
    by (simp add: example_test_def len_def)
  have i: "''index'' \<in> set (column_names example_test)"
    by (simp add: example_test_def column_names_def)
  note w = submission_two_columns_one_row_per_input
    [where files = example_files and T = example_test and lib = example_library, OF f]
  define sub where "sub = \<lparr>header = [(''index'', Int64), (''price'', Float64)],
          rows = [[IntV 7, FloatV 30], [IntV 8, FloatV 60]]\<rparr>"
  have c: "fst (predict_clean example_library example_files) = Inr sub"
    unfolding sub_def by (rule predict_clean_example)
  note h = w [THEN conjunct1, rule_format, OF c]
  from h [THEN conjunct2] have r: "column_names sub = [''index'', ''price'']"
    "len sub = len example_test"
    "WriteCsv ''submission.csv'' sub \<in> set (snd (predict_clean example_library example_files))"
    by simp_all
  from h [THEN conjunct1] obtain model idx X preds where
    "example_files ''model_pipeline.pkl'' = Some (Pkl model)"
    "fst (prepare_test example_test) = Inr (idx, X)"
    "snd idx = (if ''index'' \<in> set (column_names example_test)
                then column_cells example_test ''index''
                else map (\<lambda>i. IntV (int i)) [0..<len example_test])"
    "column_names X = filter (\<lambda>c. c \<noteq> ''index'') (column_names example_test)"
    "fst (pipeline_predict example_library model X) = Inr preds"
    "sub = \<lparr>header = [(''index'', fst idx), (''price'', Float64)],
            rows = map (\<lambda>p. [fst p, snd p]) (zip (snd idx) (map FloatV preds))\<rparr>"
    "length preds = len example_test"
    "column_cells sub ''index'' = snd idx"
    "column_cells sub ''price'' = map FloatV preds"
    by (elim exE conjE) (rule that, assumption+)
  with i l r have "\<exists>preds. column_names sub = [''index'', ''price''] \<and> len sub = 2 \<and>
      column_cells sub ''index'' = column_cells example_test ''index'' \<and>
      column_cells sub ''price'' = map FloatV preds \<and>
      WriteCsv ''submission.csv'' sub \<in> set (snd (predict_clean example_library example_files))"
    by auto
  with c f show ?thesis
    unfolding sub_def by blast
qed

section \<open>The pipeline of the training and cross-validation scripts\<close>





section \<open>The parameters of the training script\<close>

lemma train_model_clean_example:
  "fst (train_model_clean example_library example_files) = Inr (1, 2, 0.9)"
  by (simp add: train_model_clean_def io_simps read_csv_def example_files_def
      features_and_target_def drop_columns_def get_column_def TARGET_def column_names_def
      example_data_def train_validation_split_def train_test_split_def library_call_def
      example_library_def len_def select_rows_def select_cells_def fit_and_score_def
      train_pipeline_eq pipeline_fit_def pipeline_predict_def library_check_def
      column_cells_def)

text \<open>
  Claim C2.  The training script asks the library for a split with test size
  \<open>20 / 100\<close> (so 80 of 100 parts are left for training) and random state 42.
  Whenever it runs to its end, the model it saves is a pipeline whose numeric imputer
  has the strategy \<open>median\<close> and whose forest has 400 trees and random state 42,
  fitted on the training part of the split the library made for test size \<open>20 / 100\<close>
  and random state 42.
\<close>

theorem training_parameter_choices:
  assumes "fst (train_model_clean lib files) = Inr r"
  shows "(\<forall>X y. train_validation_split lib X y = train_test_split lib X y (20 / 100) 42) \<and>
    (\<exists>df X y tr te Xt num_cols cat_cols.
       files ''data/data.csv'' = Some (Csv df) \<and>
       fst (features_and_target df) = Inr (X, y) \<and>
       split_indices lib (len X) (20 / 100) 42 = Inr (tr, te) \<and>
       DumpModel ''model_pipeline.pkl''
         (FittedPipeline
            (FittedTransformer
               (ColumnTransformer
                  [(''num'', Pipeline [(''imputer'', SimpleImputer ''median'')], num_cols),
                   (''cat'', categorical_transformer, cat_cols)])
               (select_rows X tr))
            (FittedModel (RandomForestRegressor 400 42 (- 1)) Xt (select_cells y tr)))
         \<in> set (snd (train_model_clean lib files)))"
proof
  show "\<forall>X y. train_validation_split lib X y = train_test_split lib X y (20 / 100) 42"
    by (simp add: train_validation_split_def)
next
  from train_model_clean_run [OF assms] obtain df X y parts model where
    d: "files ''data/data.csv'' = Some (Csv df)"
    and xy: "fst (features_and_target df) = Inr (X, y)"
    and ps: "fst (train_validation_split lib X y) = Inr parts"
    and fs: "fst (fit_and_score lib (train_pipeline X) parts) = Inr (model, r)"
    and log: "DumpModel ''model_pipeline.pkl'' model \<in> set (snd (train_model_clean lib files))"
    by force
  from ps obtain tr te where
    sp: "split_indices lib (len X) (20 / 100) 42 = Inr (tr, te)"
    and parts: "parts = (select_rows X tr, select_rows X te, select_cells y tr, select_cells y te)"
    unfolding train_validation_split_def train_test_split_Inr by auto
  from fit_and_score_Inr [OF fs [unfolded parts]]
  have "fst (pipeline_fit lib (train_pipeline X) (select_rows X tr) (select_cells y tr)) = Inr model"
    by auto
  then obtain Xt where
    m: "model = FittedPipeline
            (FittedTransformer
               (ColumnTransformer
                  [(''num'', Pipeline [(''imputer'', SimpleImputer ''median'')],
                    filter (\<lambda>c. c \<notin> set (object_columns X)) (column_names X)),
                   (''cat'', categorical_transformer, object_columns X)])
               (select_rows X tr))
            (FittedModel (RandomForestRegressor 400 42 (- 1)) Xt (select_cells y tr))"
    unfolding train_pipeline_eq pipeline_fit_two_stage categorical_transformer_def by blast
  show "\<exists>df X y tr te Xt num_cols cat_cols.
       files ''data/data.csv'' = Some (Csv df) \<and>
       fst (features_and_target df) = Inr (X, y) \<and>
       split_indices lib (len X) (20 / 100) 42 = Inr (tr, te) \<and>
       DumpModel ''model_pipeline.pkl''
         (FittedPipeline
            (FittedTransformer
               (ColumnTransformer
                  [(''num'', Pipeline [(''imputer'', SimpleImputer ''median'')], num_cols),
                   (''cat'', categorical_transformer, cat_cols)])
               (select_rows X tr))
            (FittedModel (RandomForestRegressor 400 42 (- 1)) Xt (select_cells y tr)))
         \<in> set (snd (train_model_clean lib files))"
    using d xy sp log [unfolded m] by blast
qed

theorem training_parameter_choices_witness:
  "fst (train_model_clean example_library example_files) = Inr (1, 2, 0.9) \<and>
   (\<exists>df X y tr te Xt num_cols cat_cols.
       example_files ''data/data.csv'' = Some (Csv df) \<and>
       fst (features_and_target df) = Inr (X, y) \<and>
       split_indices example_library (len X) (20 / 100) 42 = Inr (tr, te) \<and>
       DumpModel ''model_pipeline.pkl''
         (FittedPipeline
            (FittedTransformer
               (ColumnTransformer
                  [(''num'', Pipeline [(''imputer'', SimpleImputer ''median'')], num_cols),
                   (''cat'', categorical_transformer, cat_cols)])
               (select_rows X tr))
            (FittedModel (RandomForestRegressor 400 42 (- 1)) Xt (select_cells y tr)))
         \<in> set (snd (train_model_clean example_library example_files)))"
  using training_parameter_choices [OF train_model_clean_example] train_model_clean_example
  by blast

section \<open>The accuracy-verification script and the split\<close>

lemma fst_accuracy_report [simp]: "fst (accuracy_report a b c d) = Inr ()"
  by (simp add: accuracy_report_def Let_def io_simps)

lemma check_features_and_target:
  "io_bind (drop_columns df [''price'', ''index'']) (\<lambda>X.
     io_bind (get_column df ''price'') (\<lambda>y. f X y)) =
   io_bind (features_and_target df) (\<lambda>Xy. f (fst Xy) (snd Xy))"
  by (simp add: features_and_target_def TARGET_def io_bind_def split: sum.splits)

lemma check_model_accuracy_run:
  assumes "fst (check_model_accuracy lib files) = Inr r"
  shows "\<exists>model df X y X_train X_val y_train y_val p_train p_val mae mse r2.
     files ''model_pipeline.pkl'' = Some (Pkl model) \<and>
     files ''data/data.csv'' = Some (Csv df) \<and>
     fst (features_and_target df) = Inr (X, y) \<and>
     fst (train_test_split lib X y (20 / 100) 42) = Inr (X_train, X_val, y_train, y_val) \<and>
     fst (pipeline_predict lib model X_train) = Inr p_train \<and>
     fst (pipeline_predict lib model X_val) = Inr p_val \<and>
     mean_absolute_error lib y_val p_val = Inr mae \<and>
     mean_squared_error lib y_val p_val = Inr mse \<and>
     r2_score lib y_val p_val = Inr r2 \<and>
     r = (mae, sqrt mse, r2)"
proof -
  note defs = check_model_accuracy_def check_features_and_target io_simps joblib_load_def
    read_csv_def path_exists_def fst_library_call
  from assms obtain model where m: "files ''model_pipeline.pkl'' = Some (Pkl model)"
    by (auto simp: defs split: option.splits stored.splits sum.splits if_splits)
  from assms m obtain df where d: "files ''data/data.csv'' = Some (Csv df)"
    by (auto simp: defs split: option.splits stored.splits sum.splits)
  from assms m d obtain X y where xy: "fst (features_and_target df) = Inr (X, y)"
    by (auto simp: defs split: sum.splits)
  from assms m d xy obtain X_train X_val y_train y_val where
    ps: "fst (train_test_split lib X y (20 / 100) 42) = Inr (X_train, X_val, y_train, y_val)"
    by (auto simp: defs split: sum.splits)
  from assms m d xy ps obtain p_train where
    pt: "fst (pipeline_predict lib model X_train) = Inr p_train"
    by (auto simp: defs split: sum.splits)
  from assms m d xy ps pt obtain p_val where
    pv: "fst (pipeline_predict lib model X_val) = Inr p_val"
    by (auto simp: defs split: sum.splits)
  from assms m d xy ps pt pv obtain mae mse r2 where
    "mean_absolute_error lib y_val p_val = Inr mae"
    "mean_squared_error lib y_val p_val = Inr mse"
    "r2_score lib y_val p_val = Inr r2"
    "r = (mae, sqrt mse, r2)"
    by (auto simp: defs split: sum.splits)
  with m d xy ps pt pv show ?thesis
    by blast
qed

lemma check_model_accuracy_example:
  "fst (check_model_accuracy example_library example_files) = Inr (1, 2, 0.9)"
  by (simp add: check_model_accuracy_def check_features_and_target io_simps joblib_load_def
      read_csv_def path_exists_def example_files_def
      features_and_target_def drop_columns_def get_column_def TARGET_def column_names_def
      example_data_def train_test_split_def library_call_def
      example_library_def len_def select_rows_def select_cells_def
      pipeline_predict_def example_model_def example_features_def column_cells_def)

lemma train_model_clean_example_dump:
  "DumpModel ''model_pipeline.pkl'' example_model
     \<in> set (snd (train_model_clean example_library example_files))"
  apply (simp add: train_model_clean_def io_simps read_csv_def example_files_def
      features_and_target_def drop_columns_def get_column_def TARGET_def column_names_def
      example_data_def train_validation_split_def train_test_split_def library_call_def
      example_library_def len_def select_rows_def select_cells_def fit_and_score_def
      train_pipeline_def preprocessor_def object_columns_def
      pipeline_fit_def pipeline_predict_def library_check_def
      column_cells_def example_model_def example_features_def float_of_def)
    by (auto simp: image_iff)

text \<open>
  Claim C9.  Let the training script run to its end on a disk, let \<open>model\<close> be the
  pipeline it saves, and let the accuracy-verification script run to its end on the same
  disk with that model file.  Then both scripts pass the same features \<open>X\<close> and
  target \<open>y\<close> to the splitter with test size \<open>20 / 100\<close> and random state 42 and so
  get the same training part and the same validation part; the model was fitted on the
  rows \<open>tr\<close> of the training part; the validation metrics the verification script
  reports are computed on the rows \<open>te\<close> of the validation part and are the metrics the
  training script reported; and, the library's splitter putting no row in both parts,
  no row of \<open>te\<close> is a row the model was fitted on.
\<close>

theorem accuracy_check_reproduces_split:
  assumes "fst (train_model_clean lib files) = Inr r"
    and "DumpModel ''model_pipeline.pkl'' model \<in> set (snd (train_model_clean lib files))"
    and "fst (check_model_accuracy lib (files(''model_pipeline.pkl'' \<mapsto> Pkl model))) = Inr r'"
    and "\<And>n tr te. split_indices lib n (20 / 100) 42 = Inr (tr, te) \<Longrightarrow> set tr \<inter> set te = {}"
  shows "\<exists>df X y tr te.
     files ''data/data.csv'' = Some (Csv df) \<and>
     fst (features_and_target df) = Inr (X, y) \<and>
     fst (train_validation_split lib X y) =
       Inr (select_rows X tr, select_rows X te, select_cells y tr, select_cells y te) \<and>
     fst (train_test_split lib X y (20 / 100) 42) =
       Inr (select_rows X tr, select_rows X te, select_cells y tr, select_cells y te) \<and>
     (\<exists>pre est Xt. model = FittedPipeline (FittedTransformer pre (select_rows X tr))
                                          (FittedModel est Xt (select_cells y tr))) \<and>
     (\<exists>p_val mae mse r2.
        fst (pipeline_predict lib model (select_rows X te)) = Inr p_val \<and>
        mean_absolute_error lib (select_cells y te) p_val = Inr mae \<and>
        mean_squared_error lib (select_cells y te) p_val = Inr mse \<and>
        r2_score lib (select_cells y te) p_val = Inr r2 \<and>
        r' = (mae, sqrt mse, r2)) \<and>
     r' = r \<and>
     set tr \<inter> set te = {}"
proof -
  from train_model_clean_run [OF assms(1)] obtain df X y parts model' where
    d: "files ''data/data.csv'' = Some (Csv df)"
    and xy: "fst (features_and_target df) = Inr (X, y)"
    and ps: "fst (train_validation_split lib X y) = Inr parts"
    and fs: "fst (fit_and_score lib (train_pipeline X) parts) = Inr (model', r)"
    and log: "snd (train_model_clean lib files) =
       [ReadCsv ''data/data.csv'', Print ''Numerical features ({}): {}'',
        Print ''Categorical features ({}): {}'', Print ''Training samples: {}'',
        Print ''Validation samples: {}'', Print ''Training model...'',
        Print ''Training complete!'', Print ''=== MODEL PERFORMANCE ==='',
        Print ''MAE:  {} rubles'', Print ''RMSE: {} rubles'', Print ''R2:   {}'',
        DumpModel ''model_pipeline.pkl'' model', Print ''Model saved to: model_pipeline.pkl'',
        Print ''Model size: ~2.9 GB'', Print ''Ready for predictions!'']"
    by blast
  from assms(2) have mm: "model' = model"
    by (simp add: log)
  from ps obtain tr te where
    sp: "split_indices lib (len X) (20 / 100) 42 = Inr (tr, te)"
    and parts: "parts = (select_rows X tr, select_rows X te, select_cells y tr, select_cells y te)"
    unfolding train_validation_split_def train_test_split_Inr by auto
  have split_train: "fst (train_validation_split lib X y) =
       Inr (select_rows X tr, select_rows X te, select_cells y tr, select_cells y te)"
    using ps parts by simp
  then have split_check: "fst (train_test_split lib X y (20 / 100) 42) =
       Inr (select_rows X tr, select_rows X te, select_cells y tr, select_cells y te)"
    by (simp add: train_validation_split_def)
  from fit_and_score_Inr [OF fs [unfolded parts mm]] obtain preds mae mse r2 where
    fit: "fst (pipeline_fit lib (train_pipeline X) (select_rows X tr) (select_cells y tr)) = Inr model"
    and tp: "fst (pipeline_predict lib model (select_rows X te)) = Inr preds"
    and tm: "mean_absolute_error lib (select_cells y te) preds = Inr mae"
      "mean_squared_error lib (select_cells y te) preds = Inr mse"
      "r2_score lib (select_cells y te) preds = Inr r2"
    and r: "r = (mae, sqrt mse, r2)"
    by auto
  from fit have fitted: "\<exists>pre est Xt. model = FittedPipeline (FittedTransformer pre (select_rows X tr))
                                          (FittedModel est Xt (select_cells y tr))"
    unfolding train_pipeline_eq pipeline_fit_two_stage by blast
  from check_model_accuracy_run [OF assms(3)] d obtain X' y' X_train X_val y_train y_val
      p_val mae' mse' r2' where
    xy': "fst (features_and_target df) = Inr (X', y')"
    and ps': "fst (train_test_split lib X' y' (20 / 100) 42) = Inr (X_train, X_val, y_train, y_val)"
    and cp: "fst (pipeline_predict lib model X_val) = Inr p_val"
    and cm: "mean_absolute_error lib y_val p_val = Inr mae'"
      "mean_squared_error lib y_val p_val = Inr mse'"
      "r2_score lib y_val p_val = Inr r2'"
    and r': "r' = (mae', sqrt mse', r2')"
    by auto
  from xy xy' have "X' = X" "y' = y"
    by simp_all
  with ps' split_check have val: "X_val = select_rows X te" "y_val = select_cells y te"
    by simp_all
  from cp tp val have "p_val = preds"
    by simp
  with cm tm val have same: "mae' = mae" "mse' = mse" "r2' = r2"
    by simp_all
  have metrics: "\<exists>p_val mae mse r2.
        fst (pipeline_predict lib model (select_rows X te)) = Inr p_val \<and>
        mean_absolute_error lib (select_cells y te) p_val = Inr mae \<and>
        mean_squared_error lib (select_cells y te) p_val = Inr mse \<and>
        r2_score lib (select_cells y te) p_val = Inr r2 \<and>
        r' = (mae, sqrt mse, r2)"
    using tp tm r' same by blast
  have "r' = r"
    using r r' same by simp
  moreover have "set tr \<inter> set te = {}"
    by (rule assms(4) [OF sp])
  ultimately show ?thesis
    using d xy split_train split_check fitted metrics by blast
qed

theorem accuracy_check_reproduces_split_witness:
  "fst (train_model_clean example_library example_files) = Inr (1, 2, 0.9) \<and>
   DumpModel ''model_pipeline.pkl'' example_model
     \<in> set (snd (train_model_clean example_library example_files)) \<and>
   fst (check_model_accuracy example_library
          (example_files(''model_pipeline.pkl'' \<mapsto> Pkl example_model))) = Inr (1, 2, 0.9) \<and>
   (\<exists>df X y tr te.
      example_files ''data/data.csv'' = Some (Csv df) \<and>
      fst (features_and_target df) = Inr (X, y) \<and>
      fst (train_validation_split example_library X y) =
        Inr (select_rows X tr, select_rows X te, select_cells y tr, select_cells y te) \<and>
      fst (train_test_split example_library X y (20 / 100) 42) =
        Inr (select_rows X tr, select_rows X te, select_cells y tr, select_cells y te) \<and>
      set tr \<inter> set te = {})"
proof -
  have same_files: "example_files(''model_pipeline.pkl'' \<mapsto> Pkl example_model) = example_files"
    by (rule ext) (simp add: example_files_def)
  have c: "fst (check_model_accuracy example_library
          (example_files(''model_pipeline.pkl'' \<mapsto> Pkl example_model))) = Inr (1, 2, 0.9)"
    unfolding same_files by (rule check_model_accuracy_example)
  have disj: "set tr \<inter> set te = {}"
    if "split_indices example_library n (20 / 100) 42 = Inr (tr, te)" for n tr te
    using that by (auto simp: example_library_def split: if_splits)
  have "\<exists>df X y tr te.
     example_files ''data/data.csv'' = Some (Csv df) \<and>
     fst (features_and_target df) = Inr (X, y) \<and>
     fst (train_validation_split example_library X y) =
       Inr (select_rows X tr, select_rows X te, select_cells y tr, select_cells y te) \<and>
     fst (train_test_split example_library X y (20 / 100) 42) =
       Inr (select_rows X tr, select_rows X te, select_cells y tr, select_cells y te) \<and>
     (\<exists>pre est Xt. example_model = FittedPipeline (FittedTransformer pre (select_rows X tr))
                                          (FittedModel est Xt (select_cells y tr))) \<and>
     (\<exists>p_val mae mse r2.
        fst (pipeline_predict example_library example_model (select_rows X te)) = Inr p_val \<and>
        mean_absolute_error example_library (select_cells y te) p_val = Inr mae \<and>
        mean_squared_error example_library (select_cells y te) p_val = Inr mse \<and>
        r2_score example_library (select_cells y te) p_val = Inr r2 \<and>
        (1, 2, 0.9) = (mae, sqrt mse, r2)) \<and>
     (1::real, 2::real, 0.9::real) = (1, 2, 0.9) \<and>
     set tr \<inter> set te = {}"
    by (rule accuracy_check_reproduces_split
          [OF train_model_clean_example train_model_clean_example_dump c])
       (erule disj)
  then obtain df X y tr te where
    "example_files ''data/data.csv'' = Some (Csv df)"
    "fst (features_and_target df) = Inr (X, y)"
    "fst (train_validation_split example_library X y) =
        Inr (select_rows X tr, select_rows X te, select_cells y tr, select_cells y te)"
    "fst (train_test_split example_library X y (20 / 100) 42) =
        Inr (select_rows X tr, select_rows X te, select_cells y tr, select_cells y te)"
    "set tr \<inter> set te = {}"
    by (elim exE conjE) (rule that, assumption+)
  then have "\<exists>df X y tr te.
      example_files ''data/data.csv'' = Some (Csv df) \<and>
      fst (features_and_target df) = Inr (X, y) \<and>
      fst (train_validation_split example_library X y) =
        Inr (select_rows X tr, select_rows X te, select_cells y tr, select_cells y te) \<and>
      fst (train_test_split example_library X y (20 / 100) 42) =
        Inr (select_rows X tr, select_rows X te, select_cells y tr, select_cells y te) \<and>
      set tr \<inter> set te = {}"
    by blast
  with train_model_clean_example train_model_clean_example_dump c show ?thesis
    by (intro conjI)
qed

section \<open>Feature columns at prediction time\<close>

text \<open>
  Claim C5.  Let the library raise on a mismatch of the feature columns and predict on a
  match, as the spec says it does.  Let the model file hold a pipeline whose transform
  was fitted on the table \<open>F\<close>, and let \<open>X\<close> be the feature table of the
  prediction script: the test table without its \<open>index\<close> column.  If the column names
  of \<open>X\<close> are not those of \<open>F\<close>, the script ends in the exception the library
  raised, unchanged; if they are, the script runs to its end.  The script makes no check
  of its own.  When the model file was saved by the training script, the columns of
  \<open>F\<close> are those of the training data without \<open>price\<close> and \<open>index\<close>.
\<close>

theorem column_mismatch_raises_in_library:
  assumes "raises_on_mismatch lib" and "predicts_on_match lib"
    and "files ''model_pipeline.pkl'' = Some (Pkl (FittedPipeline (FittedTransformer e F) m))"
    and "files ''data/test.csv'' = Some (Csv T)"
  shows "\<exists>idx X.
     fst (prepare_test T) = Inr (idx, X) \<and>
     column_names X = filter (\<lambda>c. c \<noteq> ''index'') (column_names T) \<and>
     (column_names X \<noteq> column_names F \<longrightarrow>
        (\<exists>err. transform lib (FittedTransformer e F) X = Inl err \<and>
               fst (predict_clean lib files) = Inl (LibraryRaised err))) \<and>
     (column_names X = column_names F \<longrightarrow>
        (\<exists>sub. fst (predict_clean lib files) = Inr sub)) \<and>
     (\<forall>files' r. fst (train_model_clean lib files') = Inr r \<longrightarrow>
        DumpModel ''model_pipeline.pkl'' (FittedPipeline (FittedTransformer e F) m)
          \<in> set (snd (train_model_clean lib files')) \<longrightarrow>
        (\<exists>df. files' ''data/data.csv'' = Some (Csv df) \<and>
              column_names F =
                filter (\<lambda>c. c \<noteq> ''price'' \<and> c \<noteq> ''index'') (column_names df)))"
proof -
  from prepare_test_total [of T] obtain idx X where
    p: "fst (prepare_test T) = Inr (idx, X)" and li: "length (snd idx) = len T"
    and lx: "len X = len T"
    by auto
  note out = predict_clean_outcome [OF assms(3,4) p, of lib]
  have mismatch: "\<exists>err. transform lib (FittedTransformer e F) X = Inl err \<and>
               fst (predict_clean lib files) = Inl (LibraryRaised err)"
    if "column_names X \<noteq> column_names F"
  proof -
    from assms(1) that obtain err where "transform lib (FittedTransformer e F) X = Inl err"
      unfolding raises_on_mismatch_def by blast
    then show ?thesis
      by (simp add: out fst_pipeline_predict)
  qed
  have match: "\<exists>sub. fst (predict_clean lib files) = Inr sub"
    if "column_names X = column_names F"
  proof -
    from assms(2) that obtain Xt preds where
      "transform lib (FittedTransformer e F) X = Inr Xt" "model_predict lib m Xt = Inr preds"
      "length preds = len X"
      unfolding predicts_on_match_def by blast
    then show ?thesis
      using li lx by (simp add: out fst_pipeline_predict DataFrame2_def)
  qed
  have trained: "\<exists>df. files' ''data/data.csv'' = Some (Csv df) \<and>
              column_names F =
                filter (\<lambda>c. c \<noteq> ''price'' \<and> c \<noteq> ''index'') (column_names df)"
    if run: "fst (train_model_clean lib files') = Inr r"
      and dump: "DumpModel ''model_pipeline.pkl'' (FittedPipeline (FittedTransformer e F) m)
          \<in> set (snd (train_model_clean lib files'))"
    for files' r
  proof -
    from train_model_clean_run [OF run] obtain df X' y parts model where
      d: "files' ''data/data.csv'' = Some (Csv df)"
      and xy: "fst (features_and_target df) = Inr (X', y)"
      and ps: "fst (train_validation_split lib X' y) = Inr parts"
      and fs: "fst (fit_and_score lib (train_pipeline X') parts) = Inr (model, r)"
      and log: "snd (train_model_clean lib files') =
       [ReadCsv ''data/data.csv'', Print ''Numerical features ({}): {}'',
        Print ''Categorical features ({}): {}'', Print ''Training samples: {}'',
        Print ''Validation samples: {}'', Print ''Training model...'',
        Print ''Training complete!'', Print ''=== MODEL PERFORMANCE ==='',
        Print ''MAE:  {} rubles'', Print ''RMSE: {} rubles'', Print ''R2:   {}'',
        DumpModel ''model_pipeline.pkl'' model, Print ''Model saved to: model_pipeline.pkl'',
        Print ''Model size: ~2.9 GB'', Print ''Ready for predictions!'']"
      by blast
    from dump have mm: "model = FittedPipeline (FittedTransformer e F) m"
      by (simp add: log)
    from ps obtain tr te where
      parts: "parts = (select_rows X' tr, select_rows X' te, select_cells y tr, select_cells y te)"
      unfolding train_validation_split_def train_test_split_Inr by auto
    from fit_and_score_Inr [OF fs [unfolded parts mm]]
    have "fst (pipeline_fit lib (train_pipeline X') (select_rows X' tr) (select_cells y tr))
            = Inr (FittedPipeline (FittedTransformer e F) m)"
      by auto
    then have "F = select_rows X' tr"
      unfolding train_pipeline_eq pipeline_fit_two_stage by blast
    then have "column_names F = column_names X'"
      by simp
    with features_and_target_Inr [OF xy] d show ?thesis
      by simp
  qed
  from p prepare_test_columns [OF p] mismatch match trained show ?thesis
    by blast
qed

lemma example_library_raises_on_mismatch: "raises_on_mismatch example_library"
  by (simp add: raises_on_mismatch_def example_library_def)

lemma example_library_predicts_on_match: "predicts_on_match example_library"
  by (simp add: predicts_on_match_def example_library_def len_def)

theorem column_mismatch_raises_in_library_witness:
  "raises_on_mismatch example_library \<and> predicts_on_match example_library \<and>
   example_files ''model_pipeline.pkl'' =
     Some (Pkl (FittedPipeline
       (FittedTransformer (preprocessor [''total_area''] [''gas'']) example_features)
       (FittedModel (RandomForestRegressor 400 42 (- 1)) [[55, 0], [0, 0]]
          (Float64, [FloatV 150, FloatV 120])))) \<and>
   example_files ''data/test.csv'' = Some (Csv example_test) \<and>
   (\<exists>sub. fst (predict_clean example_library example_files) = Inr sub) \<and>
   (example_files(''data/test.csv'' \<mapsto> Csv example_data)) ''data/test.csv''
     = Some (Csv example_data) \<and>
   (\<exists>err. fst (predict_clean example_library
                 (example_files(''data/test.csv'' \<mapsto> Csv example_data)))
           = Inl (LibraryRaised err))"
proof -
  let ?e = "preprocessor [''total_area''] [''gas'']"
  let ?m = "FittedModel (RandomForestRegressor 400 42 (- 1)) [[55, 0], [0, 0]]
          (Float64, [FloatV 150, FloatV 120])"
  let ?files' = "example_files(''data/test.csv'' \<mapsto> Csv example_data)"
  have m: "example_files ''model_pipeline.pkl'' =
     Some (Pkl (FittedPipeline (FittedTransformer ?e example_features) ?m))"
    by (simp add: example_files_def example_model_def)
  have t: "example_files ''data/test.csv'' = Some (Csv example_test)"
    by (simp add: example_files_def)
  have m': "?files' ''model_pipeline.pkl'' =
     Some (Pkl (FittedPipeline (FittedTransformer ?e example_features) ?m))"
    by (simp add: example_files_def example_model_def)
  have t': "?files' ''data/test.csv'' = Some (Csv example_data)"
    by simp
  have same: "filter (\<lambda>c. c \<noteq> ''index'') (column_names example_test)
                = column_names example_features"
    by (simp add: example_test_def example_features_def column_names_def)
  have other: "filter (\<lambda>c. c \<noteq> ''index'') (column_names example_data)
                 \<noteq> column_names example_features"
    by (simp add: example_data_def example_features_def column_names_def)
  from column_mismatch_raises_in_library
    [OF example_library_raises_on_mismatch example_library_predicts_on_match m t] same
  have a: "\<exists>sub. fst (predict_clean example_library example_files) = Inr sub"
    by force
  from column_mismatch_raises_in_library
    [OF example_library_raises_on_mismatch example_library_predicts_on_match m' t'] other
  have b: "\<exists>err. fst (predict_clean example_library ?files') = Inl (LibraryRaised err)"
    by force
  from example_library_raises_on_mismatch example_library_predicts_on_match m t a t' b
  show ?thesis
    by (intro conjI)
qed

section \<open>Straight-line composition and the one branch\<close>

lemma fst_fit_and_score_straight_line:
  "fst (fit_and_score lib (Pipeline [(a, pre), (b, est)]) (X_train, X_val, y_train, y_val)) =
   (case fst (io_seq (library_check (fit_transformer_raises lib pre X_train))
    (io_bind (library_call (transform lib (FittedTransformer pre X_train) X_train)) (\<lambda>Xt.
     io_seq (library_check (fit_model_raises lib est Xt y_train))
    (io_bind (library_call (transform lib (FittedTransformer pre X_train) X_val)) (\<lambda>Xv.
     io_bind (library_call (model_predict lib (FittedModel est Xt y_train) Xv)) (\<lambda>y_pred.
     io_bind (library_call (mean_absolute_error lib y_val y_pred)) (\<lambda>mae.
     io_bind (library_call (mean_squared_error lib y_val y_pred)) (\<lambda>mse.
     io_bind (library_call (r2_score lib y_val y_pred)) (\<lambda>r2.
     io_return (FittedPipeline (FittedTransformer pre X_train) (FittedModel est Xt y_train),
                mae, sqrt mse, r2)))))))))) of
      Inl e \<Rightarrow> Inl e | Inr r \<Rightarrow> Inr r)"
  by (simp add: fit_and_score_def pipeline_fit_def pipeline_predict_def io_simps
      fst_library_call fst_library_check split: sum.splits option.splits)

lemma train_model_clean_straight_line:
  assumes "files ''data/data.csv'' = Some (Csv df)"
    and "fst (features_and_target df) = Inr (X, y)"
  shows "fst (train_model_clean lib files) =
     fst (straight_line_training lib
            (preprocessor (filter (\<lambda>c. c \<notin> set (object_columns X)) (column_names X))
                          (object_columns X))
            (RandomForestRegressor 400 42 (- 1)) X y)"
proof (cases "fst (train_test_split lib X y (20 / 100) 42)")
  case (Inl e)
  with assms show ?thesis
    by (simp add: train_model_clean_def straight_line_training_def io_simps read_csv_def
        train_validation_split_def)
next
  case (Inr parts)
  obtain X_train X_val y_train y_val where parts: "parts = (X_train, X_val, y_train, y_val)"
    by (cases parts) auto
  show ?thesis
    using assms Inr
    unfolding parts
    by (simp add: train_model_clean_def straight_line_training_def io_simps read_csv_def
        train_validation_split_def train_pipeline_def Let_def
        fst_fit_and_score_straight_line fst_library_call fst_library_check
        split: sum.splits option.splits)
qed

lemma predict_clean_with_index:
  assumes "files ''model_pipeline.pkl'' = Some (Pkl model)"
    and "files ''data/test.csv'' = Some (Csv T)"
    and "''index'' \<in> set (column_names T)"
  shows "fst (predict_clean lib files) = fst (straight_line_prediction lib model T)"
proof -
  from assms(3) have p: "prepare_test T =
      io_bind (get_column T ''index'') (\<lambda>submission_index.
      io_bind (drop_columns T [''index'']) (\<lambda>X_test.
      io_return (submission_index, X_test)))"
    by (simp add: prepare_test_def)
  from prepare_test_total [of T] obtain idx X where
    q: "prepare_test T = (Inr (idx, X), [])"
    by blast
  from q p have "fst (io_bind (get_column T ''index'') (\<lambda>submission_index.
      io_bind (drop_columns T [''index'']) (\<lambda>X_test.
      io_return (submission_index, X_test)))) = Inr (idx, X)"
    by simp
  then have g: "fst (get_column T ''index'') = Inr idx"
    and d: "fst (drop_columns T [''index'']) = Inr X"
    by (auto simp: io_simps split: sum.splits)
  from q have "fst (prepare_test T) = Inr (idx, X)"
    by simp
  from predict_clean_outcome [OF assms(1,2) this, of lib] g d show ?thesis
    by (simp add: straight_line_prediction_def io_simps split: sum.splits)
qed

lemma predict_clean_without_index:
  assumes "files ''model_pipeline.pkl'' = Some (Pkl model)"
    and "files ''data/test.csv'' = Some (Csv T)"
    and "''index'' \<notin> set (column_names T)"
  shows "fst (predict_clean lib files) =
     fst (io_bind (pipeline_predict lib model T) (\<lambda>predictions.
            DataFrame2 ''index'' (Int64, map (\<lambda>i. IntV (int i)) [0..<len T])
                       ''price'' (Float64, map FloatV predictions)))"
proof -
  from prepare_test_no_index [OF assms(3)]
  have "fst (prepare_test T) = Inr ((Int64, map (\<lambda>i. IntV (int i)) [0..<len T]), T)"
    by simp
  from predict_clean_outcome [OF assms(1,2) this, of lib] show ?thesis
    by (simp add: io_simps split: sum.splits)
qed

text \<open>
  Claim C4, as stated, fails on the code: the prediction script is not the straight-line
  composition.  On a test table without an \<open>index\<close> column the straight-line
  composition stops with a KeyError, while the script takes its \<^verbatim>\<open>else\<close> branch,
  numbers the rows itself and writes a submission.
\<close>

theorem prediction_is_not_straight_line_counterexample:
  "fst (predict_clean example_library
          (example_files(''data/test.csv'' \<mapsto> Csv example_test_no_index))) =
     Inr \<lparr>header = [(''index'', Int64), (''price'', Float64)],
          rows = [[IntV 0, FloatV 30], [IntV 1, FloatV 60]]\<rparr> \<and>
   (example_files(''data/test.csv'' \<mapsto> Csv example_test_no_index)) ''model_pipeline.pkl''
     = Some (Pkl example_model) \<and>
   fst (straight_line_prediction example_library example_model example_test_no_index) =
     Inl (LibraryRaised ''KeyError'')"
proof (intro conjI)
  show "fst (predict_clean example_library
          (example_files(''data/test.csv'' \<mapsto> Csv example_test_no_index))) =
     Inr \<lparr>header = [(''index'', Int64), (''price'', Float64)],
          rows = [[IntV 0, FloatV 30], [IntV 1, FloatV 60]]\<rparr>"
    by (rule predict_clean_example_no_index)
  show "(example_files(''data/test.csv'' \<mapsto> Csv example_test_no_index)) ''model_pipeline.pkl''
     = Some (Pkl example_model)"
    by (simp add: example_files_def)
  show "fst (straight_line_prediction example_library example_model example_test_no_index) =
     Inl (LibraryRaised ''KeyError'')"
    by (simp add: straight_line_prediction_def io_simps get_column_def
        example_test_no_index_def)
qed

text \<open>
  Claim C4, amended.  The training script is a fixed sequence of library calls with no
  branch and no retry: once the data are loaded and the features and the target are
  taken, its outcome is the outcome of the straight-line composition split, fit,
  transform, fit, transform, predict, score.  The prediction script has one branch, on
  whether the test table has an \<open>index\<close> column.  With an \<open>index\<close> column its
  outcome is the outcome of the straight-line composition: take the column, drop it,
  predict, build the submission.  Without one it does not stop at the missing column:
  it predicts on the whole table and numbers the rows of the submission from 0.
\<close>

theorem training_straight_line_prediction_one_branch:
  "(files ''data/data.csv'' = Some (Csv df) \<longrightarrow>
    fst (features_and_target df) = Inr (X, y) \<longrightarrow>
      fst (train_model_clean lib files) =
      fst (straight_line_training lib
             (preprocessor (filter (\<lambda>c. c \<notin> set (object_columns X)) (column_names X))
                           (object_columns X))
             (RandomForestRegressor 400 42 (- 1)) X y)) \<and>
   (files ''model_pipeline.pkl'' = Some (Pkl model) \<longrightarrow>
    files ''data/test.csv'' = Some (Csv T) \<longrightarrow>
      (''index'' \<in> set (column_names T) \<longrightarrow>
         fst (predict_clean lib files) = fst (straight_line_prediction lib model T)) \<and>
      (''index'' \<notin> set (column_names T) \<longrightarrow>
         fst (predict_clean lib files) =
         fst (io_bind (pipeline_predict lib model T) (\<lambda>predictions.
                DataFrame2 ''index'' (Int64, map (\<lambda>i. IntV (int i)) [0..<len T])
                           ''price'' (Float64, map FloatV predictions)))))"
proof (intro conjI impI)
  assume "files ''data/data.csv'' = Some (Csv df)" and "fst (features_and_target df) = Inr (X, y)"
  then show "fst (train_model_clean lib files) =
      fst (straight_line_training lib
             (preprocessor (filter (\<lambda>c. c \<notin> set (object_columns X)) (column_names X))
                           (object_columns X))
             (RandomForestRegressor 400 42 (- 1)) X y)"
    by (rule train_model_clean_straight_line)
next
  assume "files ''model_pipeline.pkl'' = Some (Pkl model)"
    and "files ''data/test.csv'' = Some (Csv T)" and "''index'' \<in> set (column_names T)"
  then show "fst (predict_clean lib files) = fst (straight_line_prediction lib model T)"
    by (rule predict_clean_with_index)
next
  assume "files ''model_pipeline.pkl'' = Some (Pkl model)"
    and "files ''data/test.csv'' = Some (Csv T)" and "''index'' \<notin> set (column_names T)"
  then show "fst (predict_clean lib files) =
         fst (io_bind (pipeline_predict lib model T) (\<lambda>predictions.
                DataFrame2 ''index'' (Int64, map (\<lambda>i. IntV (int i)) [0..<len T])
                           ''price'' (Float64, map FloatV predictions)))"
    by (rule predict_clean_without_index)
qed

theorem training_straight_line_prediction_one_branch_witness:
  "example_files ''data/data.csv'' = Some (Csv example_data) \<and>
   (\<exists>X y. fst (features_and_target example_data) = Inr (X, y) \<and>
      fst (train_model_clean example_library example_files) =
      fst (straight_line_training example_library
             (preprocessor (filter (\<lambda>c. c \<notin> set (object_columns X)) (column_names X))
                           (object_columns X))
             (RandomForestRegressor 400 42 (- 1)) X y)) \<and>
   fst (train_model_clean example_library example_files) = Inr (1, 2, 0.9) \<and>
   example_files ''model_pipeline.pkl'' = Some (Pkl example_model) \<and>
   example_files ''data/test.csv'' = Some (Csv example_test) \<and>
   ''index'' \<in> set (column_names example_test) \<and>
   fst (predict_clean example_library example_files) =
     fst (straight_line_prediction example_library example_model example_test)"
proof -
  have d: "example_files ''data/data.csv'' = Some (Csv example_data)"
    and m: "example_files ''model_pipeline.pkl'' = Some (Pkl example_model)"
    and t: "example_files ''data/test.csv'' = Some (Csv example_test)"
    by (simp_all add: example_files_def)
  have i: "''index'' \<in> set (column_names example_test)"
    by (simp add: example_test_def column_names_def)
  from train_model_clean_run [OF train_model_clean_example] d
  obtain X y where xy: "fst (features_and_target example_data) = Inr (X, y)"
    by auto
  note w = training_straight_line_prediction_one_branch
    [where files = example_files and lib = example_library and df = example_data
       and X = X and y = y and model = example_model and T = example_test]
  from w [THEN conjunct1, rule_format, OF d xy]
  have a: "fst (train_model_clean example_library example_files) =
      fst (straight_line_training example_library
             (preprocessor (filter (\<lambda>c. c \<notin> set (object_columns X)) (column_names X))
                           (object_columns X))
             (RandomForestRegressor 400 42 (- 1)) X y)" .
  from w [THEN conjunct2, rule_format, OF m t, THEN conjunct1, rule_format, OF i]
  have b: "fst (predict_clean example_library example_files) =
     fst (straight_line_prediction example_library example_model example_test)" .
  from xy a have "\<exists>X y. fst (features_and_target example_data) = Inr (X, y) \<and>
      fst (train_model_clean example_library example_files) =
      fst (straight_line_training example_library
             (preprocessor (filter (\<lambda>c. c \<notin> set (object_columns X)) (column_names X))
                           (object_columns X))
             (RandomForestRegressor 400 42 (- 1)) X y)"
    by blast
  with d train_model_clean_example m t i b show ?thesis
    by (intro conjI)
qed

section \<open>Failures and who handles them\<close>

lemma not_handles_iff:
  "\<not> handles_failure_itself m \<longleftrightarrow> (\<forall>e. fst m = Inl e \<longrightarrow> (\<exists>s. e = LibraryRaised s))"
  by (auto simp: handles_failure_itself_def split: sum.splits failure.splits)

lemma nh_return: "\<not> handles_failure_itself (io_return x)"
  by (simp add: not_handles_iff)

lemma nh_library_raise: "\<not> handles_failure_itself (io_raise (LibraryRaised s))"
  by (simp add: not_handles_iff)

lemma nh_emit: "\<not> handles_failure_itself (emit e)"
  by (simp add: not_handles_iff)

lemma nh_print: "\<not> handles_failure_itself (print s)"
  by (simp add: not_handles_iff)

lemma nh_prints: "\<not> handles_failure_itself (prints ss)"
  by (simp add: not_handles_iff)

lemma nh_to_csv: "\<not> handles_failure_itself (to_csv df p)"
  by (simp add: not_handles_iff)

lemma nh_bind:
  assumes "\<not> handles_failure_itself m" and "\<And>x. \<not> handles_failure_itself (f x)"
  shows "\<not> handles_failure_itself (io_bind m f)"
  using assms by (auto simp: not_handles_iff fst_io_bind split: sum.splits)

lemma nh_seq:
  assumes "\<not> handles_failure_itself m" and "\<not> handles_failure_itself k"
  shows "\<not> handles_failure_itself (io_seq m k)"
  using assms by (simp add: io_seq_def nh_bind)

lemma nh_if:
  assumes "\<not> handles_failure_itself a" and "\<not> handles_failure_itself b"
  shows "\<not> handles_failure_itself (if c then a else b)"
  using assms by simp

lemma nh_case_prod:
  assumes "\<And>a b. \<not> handles_failure_itself (f a b)"
  shows "\<not> handles_failure_itself (case p of (a, b) \<Rightarrow> f a b)"
  using assms by (cases p) simp

lemma nh_case_fitted:
  assumes "\<And>a b. \<not> handles_failure_itself (f a b)"
  shows "\<not> handles_failure_itself (case p of FittedPipeline a b \<Rightarrow> f a b)"
  using assms by (cases p) simp

lemma nh_library_call: "\<not> handles_failure_itself (library_call r)"
  by (simp add: not_handles_iff fst_library_call split: sum.splits)

lemma nh_library_check: "\<not> handles_failure_itself (library_check r)"
  by (simp add: not_handles_iff fst_library_check split: option.splits)

lemma nh_read_csv: "\<not> handles_failure_itself (read_csv files p)"
  by (simp add: not_handles_iff read_csv_def fst_io_seq split: option.splits stored.splits)

lemma nh_joblib_load: "\<not> handles_failure_itself (joblib_load files p)"
  by (simp add: not_handles_iff joblib_load_def fst_io_seq split: option.splits stored.splits)

lemma nh_drop_columns: "\<not> handles_failure_itself (drop_columns df ls)"
  by (simp add: not_handles_iff drop_columns_def)

lemma nh_get_column: "\<not> handles_failure_itself (get_column df l)"
  by (simp add: not_handles_iff get_column_def split: option.splits)

lemma nh_DataFrame2: "\<not> handles_failure_itself (DataFrame2 a xs b ys)"
  by (simp add: not_handles_iff DataFrame2_def)

lemma nh_first_row: "\<not> handles_failure_itself (first_row df)"
  by (simp add: not_handles_iff first_row_def split: list.splits)

lemma nh_first_item: "\<not> handles_failure_itself (first_item xs)"
  by (simp add: not_handles_iff first_item_def split: list.splits)

lemmas nh_basic = nh_return nh_library_raise nh_emit nh_print nh_prints nh_to_csv nh_bind nh_seq
  nh_if nh_case_prod nh_case_fitted nh_library_call nh_library_check nh_read_csv nh_joblib_load
  nh_drop_columns nh_get_column nh_DataFrame2 nh_first_row nh_first_item

lemma nh_pipeline_predict: "\<not> handles_failure_itself (pipeline_predict lib m X)"
  unfolding pipeline_predict_def by (intro nh_basic)

lemma nh_pipeline_fit: "\<not> handles_failure_itself (pipeline_fit lib p X y)"
  by (simp add: not_handles_iff pipeline_fit_def io_simps fst_library_call fst_library_check
      split: estimator.splits list.splits prod.splits sum.splits option.splits)

lemma nh_train_test_split: "\<not> handles_failure_itself (train_test_split lib X y t s)"
  unfolding train_test_split_def by (intro nh_basic)

lemma nh_features_and_target: "\<not> handles_failure_itself (features_and_target df)"
  unfolding features_and_target_def by (intro nh_basic)

lemma nh_prepare_test: "\<not> handles_failure_itself (prepare_test T)"
  unfolding prepare_test_def by (intro nh_basic)

lemma nh_fit_and_score: "\<not> handles_failure_itself (fit_and_score lib p parts)"
  unfolding fit_and_score_def by (intro nh_basic nh_pipeline_fit nh_pipeline_predict)

lemma nh_accuracy_report: "\<not> handles_failure_itself (accuracy_report a b c d)"
  unfolding accuracy_report_def Let_def by (intro nh_basic)

lemma nh_save_table: "\<not> handles_failure_itself (save_table df f)"
  unfolding save_table_def by (intro nh_basic)

lemma nh_value_count_reports: "\<not> handles_failure_itself (value_count_reports lib df cols)"
proof (induction cols)
  case Nil
  show ?case by (simp add: nh_return)
next
  case (Cons c cols)
  show ?case
    unfolding value_count_reports.simps by (intro nh_basic nh_save_table Cons.IH)
qed

lemma nh_area_reports: "\<not> handles_failure_itself (area_reports lib df cols)"
proof (induction cols)
  case Nil
  show ?case by (simp add: nh_return)
next
  case (Cons c cols)
  show ?case
    unfolding area_reports.simps by (intro nh_basic nh_save_table Cons.IH)
qed

lemmas nh_rules = nh_basic nh_pipeline_predict nh_pipeline_fit nh_train_test_split
  nh_features_and_target nh_prepare_test nh_fit_and_score nh_accuracy_report nh_save_table
  nh_value_count_reports nh_area_reports

lemma nh_train_model_clean: "\<not> handles_failure_itself (train_model_clean lib files)"
  unfolding train_model_clean_def train_validation_split_def by (intro nh_rules)

lemma nh_validate_cv: "\<not> handles_failure_itself (validate_cv lib files B)"
  unfolding validate_cv_def Let_def by (intro nh_rules)

lemma nh_predict_clean: "\<not> handles_failure_itself (predict_clean lib files)"
  unfolding predict_clean_def by (intro nh_rules)

lemma nh_feature_importance: "\<not> handles_failure_itself (feature_importance lib files B)"
  unfolding feature_importance_def Let_def by (intro nh_rules)

lemma nh_find_target_clean: "\<not> handles_failure_itself (find_target_clean files)"
  unfolding find_target_clean_def Let_def by (intro nh_rules)

lemma nh_eda_clean: "\<not> handles_failure_itself (eda_clean lib files)"
  unfolding eda_clean_def by (intro nh_rules)

lemma nh_plots: "\<not> handles_failure_itself (plots lib files B)"
  unfolding plots_def Let_def by (intro nh_rules)

lemma nh_demo_predict_one: "\<not> handles_failure_itself (demo_predict_one lib files B)"
  unfolding demo_predict_one_def Let_def by (intro nh_rules)

section \<open>The two scripts that handle a failure themselves\<close>

lemma handles_bind_iff:
  "handles_failure_itself (io_bind m f) \<longleftrightarrow>
     handles_failure_itself m \<or> (\<exists>x. fst m = Inr x \<and> handles_failure_itself (f x))"
  by (auto simp: handles_failure_itself_def fst_io_bind split: sum.splits failure.splits)

lemma check_model_accuracy_missing_model:
  assumes "files ''model_pipeline.pkl'' = None"
  shows "check_model_accuracy lib files =
     (Inl Exited,
      [Print banner, Print ''MODEL ACCURACY VERIFICATION'', Print banner,
       Print ''Model file not found!'', Print ''Please run: python train_model_clean.py first''])"
  using assms
  by (simp add: check_model_accuracy_def path_exists_def io_seq_def io_bind_def)

lemma nh_check_model_accuracy:
  assumes "files ''model_pipeline.pkl'' \<noteq> None"
  shows "\<not> handles_failure_itself (check_model_accuracy lib files)"
proof -
  from assms have "path_exists files ''model_pipeline.pkl''"
    by (simp add: path_exists_def)
  then show ?thesis
    unfolding check_model_accuracy_def by (simp only: not_True_eq_False if_False) (intro nh_rules)
qed

lemma load_data_from_missing:
  assumes "list_all (\<lambda>p. files p = None) ps"
  shows "load_data_from files ps =
     (Inl (ScriptRaised ''FileNotFoundError''
       ''Could not find dataset. Put train.csv inside a data/ folder or update DATA_PATHS_TO_TRY.''), [])"
  using assms by (induction ps) (simp_all add: path_exists_def io_raise_def)

lemma nh_load_data_from:
  assumes "\<not> list_all (\<lambda>p. files p = None) ps"
  shows "\<not> handles_failure_itself (load_data_from files ps)"
  using assms
proof (induction ps)
  case Nil
  then show ?case by simp
next
  case (Cons p ps)
  show ?case
  proof (cases "path_exists files p")
    case True
    then show ?thesis
      by (simp add: nh_seq nh_print nh_read_csv)
  next
    case False
    with Cons show ?thesis
      by (simp add: path_exists_def)
  qed
qed

lemma eda_report_shape:
  "\<exists>f. eda_report lib files = io_seq (emit (MakeDirs OUTPUT_DIR)) (io_bind (load_data files) f) \<and>
       (\<forall>df. \<not> handles_failure_itself (f df))"
proof -
  let ?f = "\<lambda>df.
     let info = \<lparr>header = [(''rows'', Int64), (''columns'', Int64), (''target_present'', BoolT)],
                 rows = [[IntV (int (len df)), IntV (int (length (header df))),
                          BoolV (TARGET_COL \<in> set (column_names df))]]\<rparr>
     in
     io_seq (save_table info ''dataset_summary.csv'')
    (io_seq (save_table (statistic lib ''missing_values'' df) ''missing_values.csv'')
    (io_seq (save_table (statistic lib ''duplicate_rows'' df) ''duplicates.csv'')
    (io_seq (if TARGET_COL \<in> set (column_names df)
             then io_seq (emit (SaveFig (path_join OUTPUT_DIR ''price_hist_raw.png'')))
                 (io_seq (save_table (statistic lib ''price_skewness_raw'' df) ''price_skewness.csv'')
                 (emit (SaveFig (path_join OUTPUT_DIR ''price_hist_log1p.png''))))
             else io_return ())
    (io_seq (if TARGET_COL \<in> set (number_columns df)
             then io_seq (emit (SaveFig (path_join OUTPUT_DIR ''correlation_heatmap.png'')))
                         (save_table (statistic lib ''corr'' df) ''correlation_matrix.csv'')
             else io_return ())
    (io_seq (value_count_reports lib df CATEGORICAL_COLS)
    (io_seq (area_reports lib df [''total_area'', ''kitchen_area'', ''bath_area''])
    (print ''DONE. All EDA outputs saved in: {}/'')))))))"
  have "eda_report lib files = io_seq (emit (MakeDirs OUTPUT_DIR)) (io_bind (load_data files) ?f)"
    by (simp add: eda_report_def)
  moreover have "\<not> handles_failure_itself (?f df)" for df
    unfolding Let_def by (intro nh_rules)
  ultimately show ?thesis
    by blast
qed

lemma eda_report_handles_iff:
  "handles_failure_itself (eda_report lib files) \<longleftrightarrow>
     list_all (\<lambda>p. files p = None) DATA_PATHS_TO_TRY"
proof -
  from eda_report_shape [of lib files] obtain f where
    e: "eda_report lib files = io_seq (emit (MakeDirs OUTPUT_DIR)) (io_bind (load_data files) f)"
    and f: "\<And>df. \<not> handles_failure_itself (f df)"
    by blast
  have "handles_failure_itself (eda_report lib files) \<longleftrightarrow> handles_failure_itself (load_data files)"
    using f by (simp add: e io_seq_def handles_bind_iff nh_emit)
  also have "\<dots> \<longleftrightarrow> list_all (\<lambda>p. files p = None) DATA_PATHS_TO_TRY"
    using nh_load_data_from [of files DATA_PATHS_TO_TRY]
      load_data_from_missing [of files DATA_PATHS_TO_TRY]
    by (auto simp: load_data_def handles_failure_itself_def)
  finally show ?thesis .
qed

lemma eda_report_missing:
  assumes "list_all (\<lambda>p. files p = None) DATA_PATHS_TO_TRY"
  shows "fst (eda_report lib files) =
     Inl (ScriptRaised ''FileNotFoundError''
       ''Could not find dataset. Put train.csv inside a data/ folder or update DATA_PATHS_TO_TRY.'')"
  using load_data_from_missing [OF assms]
  by (simp add: eda_report_def load_data_def io_simps)

text \<open>
  Claim C6, as stated, fails on the code.  On a disk without the model file the
  accuracy-verification script prints a message of its own and calls \<^verbatim>\<open>exit()\<close>
  before any library call could fail; on a disk with none of the four candidate data
  files the EDA report script raises a FileNotFoundError of its own, with its own message.
\<close>

theorem scripts_handle_missing_files_counterexample:
  "check_model_accuracy example_library Map.empty =
     (Inl Exited,
      [Print banner, Print ''MODEL ACCURACY VERIFICATION'', Print banner,
       Print ''Model file not found!'', Print ''Please run: python train_model_clean.py first'']) \<and>
   handles_failure_itself (check_model_accuracy example_library Map.empty) \<and>
   eda_report example_library Map.empty =
     (Inl (ScriptRaised ''FileNotFoundError''
       ''Could not find dataset. Put train.csv inside a data/ folder or update DATA_PATHS_TO_TRY.''),
      [MakeDirs ''outputs_eda'']) \<and>
   handles_failure_itself (eda_report example_library Map.empty)"
proof -
  have a: "check_model_accuracy example_library Map.empty =
     (Inl Exited,
      [Print banner, Print ''MODEL ACCURACY VERIFICATION'', Print banner,
       Print ''Model file not found!'', Print ''Please run: python train_model_clean.py first''])"
    by (simp add: check_model_accuracy_def path_exists_def io_seq_def io_bind_def)
  have b: "eda_report example_library Map.empty =
     (Inl (ScriptRaised ''FileNotFoundError''
       ''Could not find dataset. Put train.csv inside a data/ folder or update DATA_PATHS_TO_TRY.''),
      [MakeDirs ''outputs_eda''])"
    by (simp add: eda_report_def load_data_def DATA_PATHS_TO_TRY_def path_exists_def
        OUTPUT_DIR_def io_seq_def io_bind_def io_raise_def)
  show ?thesis
    by (simp add: a b handles_failure_itself_def)
qed

text \<open>
  Claim C6, amended.  The training, cross-validation, prediction, feature-importance,
  target-finding, EDA-summary, plotting and demo scripts do no failure handling: a run
  that fails ends in the exception a library call raised.  The accuracy-verification
  script handles one failure itself: it checks for the model file and, when the file is
  missing, prints its own message (the last two lines of what it prints) and exits; with
  the file there it does no other handling.
  The EDA report script handles one failure itself: when none of its candidate data
  files exists it raises a FileNotFoundError of its own; otherwise it does no other
  handling.
\<close>

theorem failure_handling_by_script:
  "\<not> handles_failure_itself (train_model_clean lib files) \<and>
   \<not> handles_failure_itself (validate_cv lib files B) \<and>
   \<not> handles_failure_itself (predict_clean lib files) \<and>
   \<not> handles_failure_itself (feature_importance lib files B) \<and>
   \<not> handles_failure_itself (find_target_clean files) \<and>
   \<not> handles_failure_itself (eda_clean lib files) \<and>
   \<not> handles_failure_itself (plots lib files B) \<and>
   \<not> handles_failure_itself (demo_predict_one lib files B) \<and>
   (handles_failure_itself (check_model_accuracy lib files)
      \<longleftrightarrow> files ''model_pipeline.pkl'' = None) \<and>
   (files ''model_pipeline.pkl'' = None \<longrightarrow>
      fst (check_model_accuracy lib files) = Inl Exited) \<and>
   (handles_failure_itself (eda_report lib files)
      \<longleftrightarrow> list_all (\<lambda>p. files p = None) DATA_PATHS_TO_TRY) \<and>
   (list_all (\<lambda>p. files p = None) DATA_PATHS_TO_TRY \<longrightarrow>
      fst (eda_report lib files) =
        Inl (ScriptRaised ''FileNotFoundError''
          ''Could not find dataset. Put train.csv inside a data/ folder or update DATA_PATHS_TO_TRY.'')) \<and>
   (files ''model_pipeline.pkl'' = None \<longrightarrow>
      snd (check_model_accuracy lib files) =
        [Print banner, Print ''MODEL ACCURACY VERIFICATION'', Print banner,
         Print ''Model file not found!'', Print ''Please run: python train_model_clean.py first''])"
proof -
  have check: "handles_failure_itself (check_model_accuracy lib files)
      \<longleftrightarrow> files ''model_pipeline.pkl'' = None"
  proof
    assume "handles_failure_itself (check_model_accuracy lib files)"
    with nh_check_model_accuracy [of files lib] show "files ''model_pipeline.pkl'' = None"
      by blast
  next
    assume "files ''model_pipeline.pkl'' = None"
    from check_model_accuracy_missing_model [where files = files and lib = lib, OF this]
    show "handles_failure_itself (check_model_accuracy lib files)"
      by (simp add: handles_failure_itself_def)
  qed
  have exit: "files ''model_pipeline.pkl'' = None \<longrightarrow>
      fst (check_model_accuracy lib files) = Inl Exited"
    by (simp add: check_model_accuracy_missing_model)
  have raise: "list_all (\<lambda>p. files p = None) DATA_PATHS_TO_TRY \<longrightarrow>
      fst (eda_report lib files) =
        Inl (ScriptRaised ''FileNotFoundError''
          ''Could not find dataset. Put train.csv inside a data/ folder or update DATA_PATHS_TO_TRY.'')"
    using eda_report_missing by blast
  have message: "files ''model_pipeline.pkl'' = None \<longrightarrow>
      snd (check_model_accuracy lib files) =
        [Print banner, Print ''MODEL ACCURACY VERIFICATION'', Print banner,
         Print ''Model file not found!'', Print ''Please run: python train_model_clean.py first'']"
    by (simp add: check_model_accuracy_missing_model)
  show ?thesis
    by (intro conjI nh_train_model_clean nh_validate_cv nh_predict_clean nh_feature_importance
        nh_find_target_clean nh_eda_clean nh_plots nh_demo_predict_one check exit
        eda_report_handles_iff raise message)
qed

theorem failure_handling_by_script_witness:
  "Map.empty ''model_pipeline.pkl'' = (None :: stored option) \<and>
   list_all (\<lambda>p. (Map.empty :: fs) p = None) DATA_PATHS_TO_TRY \<and>
   fst (check_model_accuracy example_library Map.empty) = Inl Exited \<and>
   snd (check_model_accuracy example_library Map.empty) =
        [Print banner, Print ''MODEL ACCURACY VERIFICATION'', Print banner,
         Print ''Model file not found!'', Print ''Please run: python train_model_clean.py first''] \<and>
   fst (eda_report example_library Map.empty) =
     Inl (ScriptRaised ''FileNotFoundError''
       ''Could not find dataset. Put train.csv inside a data/ folder or update DATA_PATHS_TO_TRY.'') \<and>
   \<not> handles_failure_itself (train_model_clean example_library Map.empty) \<and>
   \<not> handles_failure_itself (predict_clean example_library Map.empty) \<and>
   example_files ''model_pipeline.pkl'' \<noteq> None \<and>
   \<not> handles_failure_itself (check_model_accuracy example_library example_files) \<and>
   \<not> list_all (\<lambda>p. example_files p = None) DATA_PATHS_TO_TRY \<and>
   \<not> handles_failure_itself (eda_report example_library example_files)"
proof -
  note w0 = failure_handling_by_script
    [where lib = example_library and files = Map.empty and B = "''.''"]
  note w1 = failure_handling_by_script
    [where lib = example_library and files = example_files and B = "''.''"]
  have a: "Map.empty ''model_pipeline.pkl'' = (None :: stored option)"
    by simp
  have b: "list_all (\<lambda>p. (Map.empty :: fs) p = None) DATA_PATHS_TO_TRY"
    by (simp add: DATA_PATHS_TO_TRY_def)
  have c: "example_files ''model_pipeline.pkl'' \<noteq> None"
    by (simp add: example_files_def)
  have d: "\<not> list_all (\<lambda>p. example_files p = None) DATA_PATHS_TO_TRY"
    by (simp add: example_files_def DATA_PATHS_TO_TRY_def)
  from w0 a have e: "fst (check_model_accuracy example_library Map.empty) = Inl Exited"
    by blast
  from w0 a have e': "snd (check_model_accuracy example_library Map.empty) =
        [Print banner, Print ''MODEL ACCURACY VERIFICATION'', Print banner,
         Print ''Model file not found!'', Print ''Please run: python train_model_clean.py first'']"
    by blast
  from w0 b have f: "fst (eda_report example_library Map.empty) =
     Inl (ScriptRaised ''FileNotFoundError''
       ''Could not find dataset. Put train.csv inside a data/ folder or update DATA_PATHS_TO_TRY.'')"
    by blast
  from w0 have g: "\<not> handles_failure_itself (train_model_clean example_library Map.empty)"
    and h: "\<not> handles_failure_itself (predict_clean example_library Map.empty)"
    by blast+
  from w1 c have i: "\<not> handles_failure_itself (check_model_accuracy example_library example_files)"
    by blast
  from w1 d have j: "\<not> handles_failure_itself (eda_report example_library example_files)"
    by blast
  show ?thesis
    by (intro conjI a b e e' f g h c i d j)
qed

section \<open>Which scripts read a CSV\<close>


lemma completes_bind:
  "completes (io_bind m f) \<longleftrightarrow> (\<exists>x. fst m = Inr x \<and> completes (f x))"
  by (cases "fst m") (simp_all add: completes_def fst_io_bind)

lemma completes_seq: "completes (io_seq m k) \<longleftrightarrow> completes m \<and> completes k"
  by (cases "fst m") (simp_all add: completes_def fst_io_seq)


lemma rc_fails: "\<not> completes m \<Longrightarrow> completes m \<longrightarrow> reads_a_csv m"
  by simp

lemma rc_bind_left:
  assumes "completes m \<longrightarrow> reads_a_csv m"
  shows "completes (io_bind m f) \<longrightarrow> reads_a_csv (io_bind m f)"
proof (cases "fst m")
  case (Inl e)
  then show ?thesis by (simp add: completes_bind)
next
  case (Inr x)
  with assms have "reads_a_csv m"
    by (simp add: completes_def)
  with Inr show ?thesis
    by (simp add: reads_a_csv_def snd_io_bind)
qed


lemma rc_seq_left:
  assumes "completes m \<longrightarrow> reads_a_csv m"
  shows "completes (io_seq m k) \<longrightarrow> reads_a_csv (io_seq m k)"
  unfolding io_seq_def using assms by (rule rc_bind_left)












section \<open>Which scripts print or write\<close>




















section \<open>What every script reads and reports\<close>





end
